theory Spec2Isabelle
  imports Main
begin

section \<open>Configuration (settings.py, read by readConfig)\<close>

text \<open>
  The constants of settings.py are environment specific (the file in the repository
  leaves every one of them empty), so they are a parameter of every function that
  reads one of the globals set by \<open>readConfig\<close>.
\<close>

record config =
  LDAPSERVER :: string
  USER :: string
  PASSWORD :: string
  BASEDN :: string
  MAILDOMAIN :: string
  STUPATTERN :: string
  GSTPATTERN :: string
  ARUBAPATTERN :: string
  STUSERVER :: string
  EMPSERVER :: string
  SHAREOU :: string
  STUDENTOU :: string
  GUESTOU :: string
  EMPOU :: string
  DEPGROUPOU :: string
  GeneralMacUsersOU :: string
  StuGeneralMacUsers :: string
  GuestGeneralMacUsers :: string
  EmpGeneralMacUsers :: string
  EmpGeneralWSUsers :: string
  FROM :: string
  TO :: string
  MAILSERVER :: string

section \<open>Pure helpers: getUserType, buildDN, lookupGroup\<close>

text \<open>The values of a row of the input, after \<open>str(...)\<close>.\<close>

type_synonym str = string

text \<open>Python's \<open>p in s\<close> on strings: \<open>p\<close> occurs in \<open>s\<close> as a contiguous substring.\<close>

fun str_in :: "string \<Rightarrow> string \<Rightarrow> bool" where
  "str_in p [] = (p = [])"
| "str_in p (c # cs) = (take (length p) (c # cs) = p \<or> str_in p cs)"

text \<open>
  \<open>getUserType\<close>: the slice \<open>username[0:-4]\<close> drops the last four characters and is
  empty for a username of at most four characters, which is what \<open>take\<close> with the
  truncating subtraction on \<open>nat\<close> computes.
\<close>

definition getUserType :: "config \<Rightarrow> string \<Rightarrow> string" where
  "getUserType cfg username =
     (if str_in (STUPATTERN cfg) username then ''STU''
      else if GSTPATTERN cfg = take (length username - 4) username then ''GST''
      else ''EMP'')"

definition buildDN :: "config \<Rightarrow> string \<Rightarrow> string" where
  "buildDN cfg username =
     (let userType = getUserType cfg username in
      if userType = ''STU'' then ''cn='' @ username @ STUDENTOU cfg
      else if userType = ''GST'' then ''cn='' @ username @ GUESTOU cfg
      else ''cn='' @ username @ EMPOU cfg)"

definition deptGroups :: "(string \<times> string) list" where
  "deptGroups =
     [(''Art'', ''Art''),
      (''History'', ''History''),
      (''Art History'', ''ArtHistory''),
      (''Chemistry'', ''Chemistry''),
      (''Cinema'', ''Cinema''),
      (''Classical Studies'', ''Classics''),
      (''Human Resources'', ''HumanResources''),
      (''Information Technology Services'', ''ITS''),
      (''Theatre'', ''Theatre'')]"

text \<open>\<open>lookupGroup\<close> returns \<open>None\<close> for a department that is not in the table.\<close>

definition lookupGroup :: "config \<Rightarrow> string \<Rightarrow> string option" where
  "lookupGroup cfg ou =
     (case map_of deptGroups ou of
        None \<Rightarrow> None
      | Some depGroup \<Rightarrow>
          if depGroup \<noteq> [] then Some (''cn='' @ depGroup @ DEPGROUPOU cfg) else Some depGroup)"

section \<open>Exceptions, directory calls and the call log\<close>

text \<open>
  The exceptions the script can meet. \<open>LDAPError\<close> is what the handlers written
  \<open>except ldap.LDAPError\<close> catch; every constructor is caught by
  \<open>except Exception\<close>.
\<close>

datatype exn =
    LDAPError
  | UnboundLocalError string
  | KeyError string
  | IndexError
  | TypeError
  | IOError

datatype scope = SCOPE_BASE | SCOPE_ONELEVEL | SCOPE_SUBTREE

datatype modop = MOD_ADD | MOD_DELETE | MOD_REPLACE

type_synonym attrs = "(string \<times> string list) list"

text \<open>A value of the dictionary given to \<open>add_s\<close>: a string, or a list of strings.\<close>

datatype pyval = Str string | Lst "string list"

type_synonym entry = "string \<times> attrs"

text \<open>The calls that leave the process: LDAP, the storage servers' HTTP triggers, SMTP.\<close>

datatype call =
    Simple_bind_s string string string
  | Search_s string scope string "string list"
  | Add_s string "(string \<times> pyval) list"
  | Modify_s string "(modop \<times> string \<times> string) list"
  | Rename_s string string "string option"
  | Delete_s string
  | Unbind_s
  | Urlopen string
  | Sendmail string string string string

text \<open>The function of edir.py whose body issues a call.\<close>

datatype fn =
    In_create | In_update | In_archive | In_delete
  | In_ldapConnect | In_findUser | In_userDisabled
  | In_addMember | In_delMemberUid | In_sendMail

datatype event = Ev (site: fn) (request: call) (succeeded: bool)

text \<open>
  The outside world answers each call, possibly depending on everything that happened
  before: \<open>call_ok\<close> says whether the call succeeds (otherwise it raises), \<open>found\<close>
  is what a successful search returns. \<open>locals_order\<close> is the order in which Python
  iterates over the dictionary returned by \<open>locals()\<close>, which is not the order of
  the parameter list. \<open>dedent\<close> is the library function \<open>textwrap.dedent\<close>.
\<close>

record world =
  call_ok :: "event list \<Rightarrow> call \<Rightarrow> bool"
  found :: "event list \<Rightarrow> call \<Rightarrow> entry list"
  locals_order :: "string list \<Rightarrow> string list"
  dedent :: "string \<Rightarrow> string"

type_synonym 'a io = "event list \<Rightarrow> event list \<times> (exn + 'a)"

definition ret :: "'a \<Rightarrow> 'a io" where
  "ret x tr = (tr, Inr x)"

definition raise :: "exn \<Rightarrow> 'a io" where
  "raise e tr = (tr, Inl e)"

definition lift :: "exn + 'a \<Rightarrow> 'a io" where
  "lift r tr = (tr, r)"

definition bnd :: "'a io \<Rightarrow> ('a \<Rightarrow> 'b io) \<Rightarrow> 'b io" where
  "bnd m f tr = (case m tr of (tr', Inl e) \<Rightarrow> (tr', Inl e) | (tr', Inr x) \<Rightarrow> f x tr')"

text \<open>\<open>try: m except ldap.LDAPError: h\<close>\<close>

definition catch_ldap :: "'a io \<Rightarrow> 'a io \<Rightarrow> 'a io" where
  "catch_ldap m h tr =
     (case m tr of (tr', Inl LDAPError) \<Rightarrow> h tr' | r \<Rightarrow> r)"

text \<open>\<open>try: m except Exception as e: h\<close>\<close>

definition catch_any :: "'a io \<Rightarrow> (exn \<Rightarrow> 'a io) \<Rightarrow> 'a io" where
  "catch_any m h tr = (case m tr of (tr', Inl e) \<Rightarrow> h e tr' | r \<Rightarrow> r)"

text \<open>\<open>try: m except ldap.LDAPError: h1 except Exception as e: h2\<close>\<close>

definition try_except :: "'a io \<Rightarrow> 'a io \<Rightarrow> (exn \<Rightarrow> 'a io) \<Rightarrow> 'a io" where
  "try_except m h1 h2 tr =
     (case m tr of
        (tr', Inl LDAPError) \<Rightarrow> h1 tr'
      | (tr', Inl e) \<Rightarrow> h2 e tr'
      | r \<Rightarrow> r)"

text \<open>A call that returns nothing of interest; \<open>e\<close> is what it raises when it fails.\<close>

definition perform :: "world \<Rightarrow> fn \<Rightarrow> call \<Rightarrow> exn \<Rightarrow> unit io" where
  "perform w who c e tr =
     (if call_ok w tr c then (tr @ [Ev who c True], Inr ())
      else (tr @ [Ev who c False], Inl e))"

definition search_s :: "world \<Rightarrow> fn \<Rightarrow> string \<Rightarrow> scope \<Rightarrow> string \<Rightarrow> string list \<Rightarrow> entry list io" where
  "search_s w who base sc flt at tr =
     (let c = Search_s base sc flt at in
      if call_ok w tr c then (tr @ [Ev who c True], Inr (found w tr c))
      else (tr @ [Ev who c False], Inl LDAPError))"

text \<open>\<open>xs[0]\<close> and \<open>d[k]\<close>\<close>

definition index0 :: "'a list \<Rightarrow> exn + 'a" where
  "index0 xs = (case xs of [] \<Rightarrow> Inl IndexError | x # _ \<Rightarrow> Inr x)"

definition getitem :: "(string \<times> 'v) list \<Rightarrow> string \<Rightarrow> exn + 'v" where
  "getitem d k = (case map_of d k of None \<Rightarrow> Inl (KeyError k) | Some v \<Rightarrow> Inr v)"

section \<open>Helpers that talk to the directory\<close>

text \<open>\<open>ldapConnect\<close> returns the connection, or \<open>False\<close> when the bind fails.\<close>

definition ldapConnect :: "config \<Rightarrow> world \<Rightarrow> bool io" where
  "ldapConnect cfg w =
     catch_ldap
       (bnd (perform w In_ldapConnect
               (Simple_bind_s (LDAPSERVER cfg) (USER cfg) (PASSWORD cfg)) LDAPError)
            (\<lambda>_. ret True))
       (ret False)"

text \<open>
  \<open>findUser\<close> and \<open>userDisabled\<close> catch the search's \<open>LDAPError\<close>, log it and go
  on to read \<open>ldap_result\<close>, which was never assigned then.
\<close>

definition findUser :: "config \<Rightarrow> world \<Rightarrow> string \<Rightarrow> bool io" where
  "findUser cfg w username =
     bnd (catch_ldap
            (bnd (search_s w In_findUser (BASEDN cfg) SCOPE_SUBTREE (''cn='' @ username) [''dn''])
                 (\<lambda>r. ret (Some r)))
            (ret None))
         (\<lambda>ldap_result. case ldap_result of
            None \<Rightarrow> raise (UnboundLocalError ''ldap_result'')
          | Some r \<Rightarrow> if length r = 0 then ret False else ret True)"

definition userDisabled :: "config \<Rightarrow> world \<Rightarrow> string \<Rightarrow> bool io" where
  "userDisabled cfg w username =
     bnd (catch_ldap
            (bnd (search_s w In_userDisabled (BASEDN cfg) SCOPE_SUBTREE (''cn='' @ username)
                    [''loginDisabled''])
                 (\<lambda>r. ret (Some r)))
            (ret None))
         (\<lambda>ldap_result. case ldap_result of
            None \<Rightarrow> raise (UnboundLocalError ''ldap_result'')
          | Some r \<Rightarrow>
              bnd (lift (index0 r)) (\<lambda>e.
              bnd (lift (getitem (snd e) ''loginDisabled'')) (\<lambda>vs.
              bnd (lift (index0 vs)) (\<lambda>v.
              if v = ''TRUE'' then ret True else ret False))))"

definition addMember :: "world \<Rightarrow> string \<Rightarrow> string \<Rightarrow> unit io" where
  "addMember w gdn dn =
     catch_ldap
       (perform w In_addMember
          (Modify_s gdn [(MOD_ADD, ''member'', dn), (MOD_ADD, ''equivalentToMe'', dn)]) LDAPError)
       (ret ())"

text \<open>The loop \<open>for member in ldap_result[0][1]['memberUid']\<close> of \<open>delMemberUid\<close>.\<close>

fun delMemberUid_loop :: "world \<Rightarrow> string \<Rightarrow> string \<Rightarrow> string list \<Rightarrow> unit io" where
  "delMemberUid_loop w gdn username [] = ret ()"
| "delMemberUid_loop w gdn username (member # members) =
     bnd (if username = member
          then perform w In_delMemberUid
                 (Modify_s gdn [(MOD_DELETE, ''memberUid'', member)]) LDAPError
          else ret ())
         (\<lambda>_. delMemberUid_loop w gdn username members)"

definition delMemberUid :: "config \<Rightarrow> world \<Rightarrow> string \<Rightarrow> string \<Rightarrow> string \<Rightarrow> unit io" where
  "delMemberUid cfg w gn gdn username =
     catch_ldap
       (bnd (search_s w In_delMemberUid (BASEDN cfg) SCOPE_SUBTREE (''cn='' @ gn) [''memberUid''])
            (\<lambda>ldap_result.
        bnd (lift (index0 ldap_result)) (\<lambda>e.
        bnd (lift (getitem (snd e) ''memberUid'')) (\<lambda>members.
        delMemberUid_loop w gdn username members))))
       (ret ())"

text \<open>
  \<open>sendMail\<close>: the template is indented by eight spaces, also before the closing
  quotes; it is formatted first and dedented after. Whatever goes wrong while sending
  is caught inside and only logged.
\<close>

definition sendMail :: "config \<Rightarrow> world \<Rightarrow> string \<Rightarrow> string \<Rightarrow> string \<Rightarrow> string \<Rightarrow> unit io" where
  "sendMail cfg w frm to subject txt =
     (let margin = ''        '';
          message = dedent w
            (margin @ ''From: '' @ frm @ [CHR 0x0A]
             @ margin @ ''To: '' @ to @ [CHR 0x0A]
             @ margin @ ''Subject: '' @ subject @ [CHR 0x0A]
             @ margin @ txt @ [CHR 0x0A]
             @ margin) in
      catch_any (perform w In_sendMail (Sendmail (MAILSERVER cfg) frm to message) IOError)
                (\<lambda>e. ret ()))"

text \<open>
  The check at the head of \<open>create\<close> and \<open>update\<close>: the first parameter, in the
  iteration order of \<open>locals()\<close>, whose value is the empty string.
\<close>

definition missing_item :: "world \<Rightarrow> (string \<times> string) list \<Rightarrow> string option" where
  "missing_item w params =
     find (\<lambda>item. map_of params item = Some []) (locals_order w (map fst params))"

section \<open>create\<close>

text \<open>
  Lines 217-239: the home-directory server and the groups of the new user. \<open>server\<close>
  is assigned in the Student and Employee branches only, so it is \<open>None\<close> (unbound)
  for a Guest. The \<open>else\<close> branch for an Employee whose department is not in the
  table evaluates \<open>"..." / "...".format(username)\<close>, a division of two strings.
\<close>

definition create_groups :: "config \<Rightarrow> string \<Rightarrow> string \<Rightarrow> exn + (string option \<times> string \<times> string list)" where
  "create_groups cfg username ou =
     (let userType = getUserType cfg username in
      if userType = ''STU'' then
        (let gdn = ''cn='' @ StuGeneralMacUsers cfg @ GeneralMacUsersOU cfg in
         Inr (Some (STUSERVER cfg), gdn, [gdn]))
      else if userType = ''GST'' then
        (let gdn = ''cn='' @ GuestGeneralMacUsers cfg @ GeneralMacUsersOU cfg in
         Inr (None, gdn, [gdn]))
      else
        (let gdn = ''cn='' @ EmpGeneralMacUsers cfg @ GeneralMacUsersOU cfg;
             gdn1 = ''cn='' @ EmpGeneralWSUsers cfg @ GeneralMacUsersOU cfg in
         case lookupGroup cfg ou of
           None \<Rightarrow> Inl TypeError
         | Some deptGroup \<Rightarrow>
             if deptGroup \<noteq> [] then Inr (Some (EMPSERVER cfg), gdn, [gdn, gdn1] @ [deptGroup])
             else Inl TypeError))"

text \<open>
  \<open>modlist.addModlist\<close> of python-ldap turns the dictionary into the list given to
  \<open>add_s\<close>: an attribute whose value is the empty string, or a list without any
  value, is left out. The list is kept here in the order of insertion; Python takes it
  in the iteration order of the dictionary.
\<close>

definition addModlist :: "(string \<times> pyval) list \<Rightarrow> (string \<times> pyval) list" where
  "addModlist entry =
     filter (\<lambda>(attrtype, v). case v of Str s \<Rightarrow> s \<noteq> [] | Lst vs \<Rightarrow> vs \<noteq> []) entry"

text \<open>
  Lines 245-279: the attribute dictionary and its conversion. \<open>if server:\<close> reads the
  local variable, which raises when it is unbound.
\<close>

definition create_attrs ::
  "config \<Rightarrow> string option \<Rightarrow> str \<Rightarrow> str \<Rightarrow> str \<Rightarrow> str \<Rightarrow> str \<Rightarrow> str \<Rightarrow> str
     \<Rightarrow> str \<Rightarrow> str \<Rightarrow> str \<Rightarrow> str \<Rightarrow> str \<Rightarrow> str \<Rightarrow> str \<Rightarrow> exn + (string \<times> pyval) list" where
  "create_attrs cfg server username loginDisabled uidNumber gidNumber givenName fullName sn
       employeeType dNumber x500UniqueIdentifier ou businessCategory userPassword description =
     (let attrs =
        [(''objectclass'', Lst [''top'', ''person'', ''organizationalPerson'', ''inetOrgPerson'',
                                ''ndsLoginProperties'', ''posixAccount'']),
         (''cn'', Str username),
         (''userPassword'', Str userPassword),
         (''description'', Str description),
         (''loginDisabled'', Str loginDisabled),
         (''givenName'', Str givenName),
         (''fullName'', Str fullName),
         (''sn'', Str sn),
         (''uid'', Str username),
         (''mail'', Str (username @ MAILDOMAIN cfg)),
         (''uidNumber'', Str uidNumber),
         (''gidNumber'', Str gidNumber),
         (''homeDirectory'', Str (''/Users/'' @ username)),
         (''employeeType'', Str employeeType),
         (''employeeNumber'', Str (drop 1 dNumber)),
         (''telexNumber'', Str dNumber),
         (''ou'', Str ou),
         (''x500UniqueIdentifier'', Str x500UniqueIdentifier),
         (''businessCategory'', Str businessCategory)];
          policy =
        [(''Language'', Str ''ENGLISH''),
         (''passwordUniqueRequired'', Str ''TRUE''),
         (''passwordRequired'', Str ''TRUE''),
         (''passwordMinimumLength'', Str ''5''),
         (''passwordAllowChange'', Str ''TRUE''),
         (''loginGraceRemaining'', Str ''3''),
         (''loginGraceLimit'', Str ''3'')]
      in case server of
           None \<Rightarrow> Inl (UnboundLocalError ''server'')
         | Some srv \<Rightarrow>
             Inr (addModlist
                    (attrs
                     @ (if srv \<noteq> []
                        then [(''ndsHomeDirectory'',
                               Str (''cn='' @ srv @ SHAREOU cfg @ ''#0#'' @ username))]
                        else [])
                     @ policy)))"

text \<open>Lines 297-303: \<open>for group in groups\<close>, the entry first, then the group.\<close>

fun create_group_loop :: "world \<Rightarrow> string \<Rightarrow> string list \<Rightarrow> unit io" where
  "create_group_loop w dn [] = ret ()"
| "create_group_loop w dn (grp # groups) =
     bnd (perform w In_create
            (Modify_s dn [(MOD_ADD, ''securityEquals'', grp), (MOD_ADD, ''groupMembership'', grp)])
            LDAPError) (\<lambda>_.
     bnd (addMember w grp dn) (\<lambda>_.
     create_group_loop w dn groups))"

text \<open>
  Lines 213-324, the first \<open>try\<close>: \<open>Some result\<close> is the \<open>return result\<close> of the
  handler, \<open>None\<close> means that control goes on to the statements after it.
\<close>

definition create_mutate ::
  "config \<Rightarrow> world \<Rightarrow> str \<Rightarrow> str \<Rightarrow> str \<Rightarrow> str \<Rightarrow> str \<Rightarrow> str \<Rightarrow> str
     \<Rightarrow> str \<Rightarrow> str \<Rightarrow> str \<Rightarrow> str \<Rightarrow> str \<Rightarrow> str \<Rightarrow> str \<Rightarrow> string option io" where
  "create_mutate cfg w username loginDisabled uidNumber gidNumber givenName fullName sn
       employeeType dNumber x500UniqueIdentifier ou businessCategory userPassword description =
     catch_ldap
       (let dn = buildDN cfg username in
        bnd (lift (create_groups cfg username ou)) (\<lambda>(server, gdn, groups).
        bnd (lift (create_attrs cfg server username loginDisabled uidNumber gidNumber givenName
                     fullName sn employeeType dNumber x500UniqueIdentifier ou businessCategory
                     userPassword description)) (\<lambda>ldif.
        bnd (perform w In_create (Add_s dn ldif) LDAPError) (\<lambda>_.
        bnd (create_group_loop w dn groups) (\<lambda>_.
        bnd (perform w In_create (Modify_s gdn [(MOD_ADD, ''memberUid'', username)]) LDAPError) (\<lambda>_.
        bnd (perform w In_create Unbind_s LDAPError) (\<lambda>_.
        ret None)))))))
       (ret (Some ''ERROR: Could not create eDir user or update groups''))"

text \<open>
  Lines 326-374, the second \<open>try\<close>: the handler assigns \<open>result\<close> and does not
  return; the assignment at line 380 follows in every case.
\<close>

definition create_provision :: "config \<Rightarrow> world \<Rightarrow> string \<Rightarrow> string \<Rightarrow> unit io" where
  "create_provision cfg w username ou =
     catch_any
       (let userType = getUserType cfg username in
        if userType = ''STU'' then
          bnd (perform w In_create
                 (Urlopen (''http://studentserver.domain.edu/cgi-bin/getspace.pl?username='' @ username))
                 IOError) (\<lambda>_.
          bnd (perform w In_create
                 (Urlopen (''http://fileserver.domain.edu/cgi-bin/getspace.pl?username='' @ username))
                 IOError) (\<lambda>_.
          perform w In_create
                 (Urlopen (''http://mediaserver.domain.edu/cgi-bin/getspace.pl?username='' @ username))
                 IOError))
        else if userType = ''GST'' then ret ()
        else
          bnd (perform w In_create
                 (Urlopen (''http://empserver.domain.edu/cgi-bin/getspace.pl?username='' @ username))
                 IOError) (\<lambda>_.
          bnd (perform w In_create
                 (Urlopen (''http://fileserver.domain.edu/cgi-bin/getspace.pl?username='' @ username
                           @ '':'' @ ou))
                 IOError) (\<lambda>_.
          perform w In_create
                 (Urlopen (''http://mediaserver.domain.edu/cgi-bin/getspace.pl?username='' @ username))
                 IOError)))
       (\<lambda>e. ret ())"

definition create ::
  "config \<Rightarrow> world \<Rightarrow> str \<Rightarrow> str \<Rightarrow> str \<Rightarrow> str \<Rightarrow> str \<Rightarrow> str \<Rightarrow> str
     \<Rightarrow> str \<Rightarrow> str \<Rightarrow> str \<Rightarrow> str \<Rightarrow> str \<Rightarrow> str \<Rightarrow> str \<Rightarrow> string io" where
  "create cfg w username loginDisabled uidNumber gidNumber givenName fullName sn
       employeeType dNumber x500UniqueIdentifier ou businessCategory userPassword description =
     (case missing_item w
             [(''username'', username), (''loginDisabled'', loginDisabled),
              (''uidNumber'', uidNumber), (''gidNumber'', gidNumber),
              (''givenName'', givenName), (''fullName'', fullName), (''sn'', sn),
              (''employeeType'', employeeType), (''dNumber'', dNumber),
              (''x500UniqueIdentifier'', x500UniqueIdentifier), (''ou'', ou),
              (''businessCategory'', businessCategory), (''userPassword'', userPassword),
              (''description'', description)] of
        Some item \<Rightarrow> ret (''ERROR: Missing an expected input value for '' @ item @ '' in input file'')
      | None \<Rightarrow>
          bnd (ldapConnect cfg w) (\<lambda>l.
          if \<not> l then ret ''ERROR: unable to connect to LDAP server''
          else
            bnd (findUser cfg w username) (\<lambda>user_exists.
            if user_exists then ret ''ERROR: username already taken!''
            else
              bnd (create_mutate cfg w username loginDisabled uidNumber gidNumber givenName
                     fullName sn employeeType dNumber x500UniqueIdentifier ou businessCategory
                     userPassword description) (\<lambda>returned.
              case returned of
                Some result \<Rightarrow> ret result
              | None \<Rightarrow>
                  bnd (create_provision cfg w username ou) (\<lambda>_.
                  ret ''SUCCESS: User added to eDir'')))))"

section \<open>update\<close>

text \<open>
  Lines 421-500, the rename. The handler for \<open>Exception\<close> assigns \<open>result\<close> and
  does not return, so control goes on to the notification and to the attribute update.
\<close>

definition update_rename :: "config \<Rightarrow> world \<Rightarrow> string \<Rightarrow> string \<Rightarrow> string option io" where
  "update_rename cfg w username newusername =
     (let userType = getUserType cfg username in
      if userType \<noteq> getUserType cfg newusername
      then ret (Some ''ERROR: can't rename users across different OUs'')
      else
        let dn = buildDN cfg username in
        bnd (try_except
               (bnd (findUser cfg w newusername) (\<lambda>taken.
                if taken then ret (Some ''ERROR: username already taken!'')
                else
                  bnd (perform w In_update (Rename_s dn (''cn='' @ newusername) None) LDAPError) (\<lambda>_.
                  let gn = (if userType = ''STU'' then StuGeneralMacUsers cfg
                            else if userType = ''GST'' then GuestGeneralMacUsers cfg
                            else EmpGeneralMacUsers cfg);
                      gdn = ''cn='' @ gn @ GeneralMacUsersOU cfg in
                  bnd (perform w In_update (Modify_s gdn [(MOD_ADD, ''memberUid'', newusername)])
                         LDAPError) (\<lambda>_.
                  bnd (delMemberUid cfg w gn gdn username) (\<lambda>_.
                  ret None)))))
               (ret (Some ''ERROR: Could not rename eDir user''))
               (\<lambda>e. ret None))
            (\<lambda>returned. case returned of
               Some result \<Rightarrow> ret (Some result)
             | None \<Rightarrow>
                 bnd (sendMail cfg w (FROM cfg) (TO cfg)
                        (''eDir user renamed: '' @ dn @ '' to '' @ newusername)
                        (''Need to rename home and other shared folders, ''
                         @ ''as well as ndsHomeDirectory attribute!'')) (\<lambda>_.
                 ret None)))"

text \<open>Lines 517-520: one \<open>MOD_DELETE\<close> for each value that contains the role marker.\<close>

fun update_role_loop :: "config \<Rightarrow> world \<Rightarrow> string \<Rightarrow> string list \<Rightarrow> unit io" where
  "update_role_loop cfg w dn [] = ret ()"
| "update_role_loop cfg w dn (val # vals) =
     bnd (if str_in (ARUBAPATTERN cfg) val
          then perform w In_update (Modify_s dn [(MOD_DELETE, ''businessCategory'', val)]) LDAPError
          else ret ())
         (\<lambda>_. update_role_loop cfg w dn vals)"

definition update_mods ::
  "config \<Rightarrow> str \<Rightarrow> str \<Rightarrow> str \<Rightarrow> str \<Rightarrow> str \<Rightarrow> str \<Rightarrow> str \<Rightarrow> str
     \<Rightarrow> str \<Rightarrow> str \<Rightarrow> str \<Rightarrow> str \<Rightarrow> str \<Rightarrow> (modop \<times> string \<times> string) list" where
  "update_mods cfg newusername loginDisabled uidNumber gidNumber givenName fullName sn
       employeeType dNumber x500UniqueIdentifier ou businessCategory description =
     [(MOD_REPLACE, ''description'', description),
      (MOD_REPLACE, ''loginDisabled'', loginDisabled),
      (MOD_REPLACE, ''givenName'', givenName),
      (MOD_REPLACE, ''fullName'', fullName),
      (MOD_REPLACE, ''sn'', sn),
      (MOD_REPLACE, ''uid'', newusername),
      (MOD_REPLACE, ''mail'', newusername @ MAILDOMAIN cfg),
      (MOD_REPLACE, ''uidNumber'', uidNumber),
      (MOD_REPLACE, ''gidNumber'', gidNumber),
      (MOD_REPLACE, ''homeDirectory'', ''/Users/'' @ newusername),
      (MOD_REPLACE, ''employeeType'', employeeType),
      (MOD_REPLACE, ''employeeNumber'', drop 1 dNumber),
      (MOD_REPLACE, ''telexNumber'', dNumber),
      (MOD_REPLACE, ''ou'', ou),
      (MOD_REPLACE, ''x500UniqueIdentifier'', x500UniqueIdentifier),
      (MOD_ADD, ''businessCategory'', businessCategory)]"

text \<open>
  Lines 503-558, the attribute update. Again the handler for \<open>Exception\<close> does not
  return.
\<close>

definition update_attrs ::
  "config \<Rightarrow> world \<Rightarrow> str \<Rightarrow> str \<Rightarrow> str \<Rightarrow> str \<Rightarrow> str \<Rightarrow> str \<Rightarrow> str
     \<Rightarrow> str \<Rightarrow> str \<Rightarrow> str \<Rightarrow> str \<Rightarrow> str \<Rightarrow> str \<Rightarrow> str option io" where
  "update_attrs cfg w newusername loginDisabled uidNumber gidNumber givenName fullName sn
       employeeType dNumber x500UniqueIdentifier ou businessCategory description =
     try_except
       (let dn = buildDN cfg newusername in
        bnd (search_s w In_update (BASEDN cfg) SCOPE_SUBTREE (''cn='' @ newusername)
               [''businessCategory'']) (\<lambda>ldap_result.
        bnd (lift (index0 ldap_result)) (\<lambda>e.
        bnd (lift (getitem (snd e) ''businessCategory'')) (\<lambda>vals.
        bnd (update_role_loop cfg w dn vals) (\<lambda>_.
        bnd (perform w In_update
               (Modify_s dn (update_mods cfg newusername loginDisabled uidNumber gidNumber
                               givenName fullName sn employeeType dNumber x500UniqueIdentifier
                               ou businessCategory description))
               LDAPError) (\<lambda>_.
        bnd (perform w In_update Unbind_s LDAPError) (\<lambda>_.
        ret None)))))))
       (ret (Some ''ERROR: Could not update eDir user''))
       (\<lambda>e. ret None)"

definition update ::
  "config \<Rightarrow> world \<Rightarrow> str \<Rightarrow> str \<Rightarrow> str \<Rightarrow> str \<Rightarrow> str \<Rightarrow> str \<Rightarrow> str
     \<Rightarrow> str \<Rightarrow> str \<Rightarrow> str \<Rightarrow> str \<Rightarrow> str \<Rightarrow> str \<Rightarrow> str \<Rightarrow> string io" where
  "update cfg w username newusername loginDisabled uidNumber gidNumber givenName fullName sn
       employeeType dNumber x500UniqueIdentifier ou businessCategory description =
     (case missing_item w
             [(''username'', username), (''newusername'', newusername),
              (''loginDisabled'', loginDisabled),
              (''uidNumber'', uidNumber), (''gidNumber'', gidNumber),
              (''givenName'', givenName), (''fullName'', fullName), (''sn'', sn),
              (''employeeType'', employeeType), (''dNumber'', dNumber),
              (''x500UniqueIdentifier'', x500UniqueIdentifier), (''ou'', ou),
              (''businessCategory'', businessCategory), (''description'', description)] of
        Some item \<Rightarrow> ret (''ERROR: Missing an expected input value for '' @ item @ '' in input file'')
      | None \<Rightarrow>
          bnd (ldapConnect cfg w) (\<lambda>l.
          if \<not> l then ret ''ERROR: unable to connect to LDAP server''
          else
            bnd (findUser cfg w username) (\<lambda>user_exists.
            if \<not> user_exists then ret ''ERROR: user could not be found!''
            else
              bnd (if username \<noteq> newusername then update_rename cfg w username newusername
                   else ret None) (\<lambda>returned.
              case returned of
                Some result \<Rightarrow> ret result
              | None \<Rightarrow>
                  bnd (update_attrs cfg w newusername loginDisabled uidNumber gidNumber givenName
                         fullName sn employeeType dNumber x500UniqueIdentifier ou businessCategory
                         description) (\<lambda>returned.
                  case returned of
                    Some result \<Rightarrow> ret result
                  | None \<Rightarrow> ret ''SUCCESS: User updated in eDir'')))))"

section \<open>archive\<close>

text \<open>Lines 603-625: the move into the archive container; a Guest is refused here.\<close>

definition archive_move :: "config \<Rightarrow> world \<Rightarrow> string \<Rightarrow> string option io" where
  "archive_move cfg w username =
     catch_ldap
       (let dn = buildDN cfg username;
            userType = getUserType cfg username;
            move = (\<lambda>container_new.
              bnd (perform w In_archive (Rename_s dn (''cn='' @ username) (Some container_new))
                     LDAPError) (\<lambda>_.
              bnd (perform w In_archive Unbind_s LDAPError) (\<lambda>_.
              ret None)))
        in if userType = ''STU'' then move (''ou=_Archive'' @ STUDENTOU cfg)
           else if userType = ''GST'' then ret (Some ''ERROR: we do not archive guest accounts'')
           else move (''ou=_Archive'' @ EMPOU cfg))
       (ret (Some ''ERROR: Could not move eDir user''))"

definition archive :: "config \<Rightarrow> world \<Rightarrow> string \<Rightarrow> string io" where
  "archive cfg w username =
     (if username = []
      then ret ''ERROR: Missing an expected input value for username in input file''
      else
        bnd (ldapConnect cfg w) (\<lambda>l.
        if \<not> l then ret ''ERROR: unable to connect to LDAP server''
        else
          bnd (findUser cfg w username) (\<lambda>user_exists.
          if \<not> user_exists then ret ''ERROR: user could not be found!''
          else
            bnd (userDisabled cfg w username) (\<lambda>disabled.
            if \<not> disabled then ret ''ERROR: user is not disabled!''
            else
              bnd (archive_move cfg w username) (\<lambda>returned.
              case returned of
                Some result \<Rightarrow> ret result
              | None \<Rightarrow> ret ''SUCCESS: User archived in eDir'')))))"

section \<open>delete\<close>

text \<open>
  Lines 673-707: the removal of the entry and of its \<open>memberUid\<close> value. The handler
  for \<open>Exception\<close> does not return.
\<close>

definition delete_entry :: "config \<Rightarrow> world \<Rightarrow> string \<Rightarrow> string option io" where
  "delete_entry cfg w username =
     try_except
       (let dn = buildDN cfg username in
        bnd (perform w In_delete (Delete_s dn) LDAPError) (\<lambda>_.
        let userType = getUserType cfg username;
            gn = (if userType = ''STU'' then StuGeneralMacUsers cfg
                  else if userType = ''GST'' then GuestGeneralMacUsers cfg
                  else EmpGeneralMacUsers cfg);
            gdn = ''cn='' @ gn @ GeneralMacUsersOU cfg in
        bnd (delMemberUid cfg w gn gdn username) (\<lambda>_.
        bnd (perform w In_delete Unbind_s LDAPError) (\<lambda>_.
        ret None))))
       (ret (Some ''ERROR: Could not delete eDir user''))
       (\<lambda>e. ret None)"

definition delete :: "config \<Rightarrow> world \<Rightarrow> string \<Rightarrow> string io" where
  "delete cfg w username =
     (if username = []
      then ret ''ERROR: Missing an expected input value for username in input file''
      else
        bnd (ldapConnect cfg w) (\<lambda>l.
        if \<not> l then ret ''ERROR: unable to connect to LDAP server''
        else
          bnd (findUser cfg w username) (\<lambda>user_exists.
          if \<not> user_exists then ret ''ERROR: user could not be found!''
          else
            bnd (userDisabled cfg w username) (\<lambda>disabled.
            if \<not> disabled then ret ''ERROR: user is not disabled!''
            else
              bnd (delete_entry cfg w username) (\<lambda>returned.
              case returned of
                Some result \<Rightarrow> ret result
              | None \<Rightarrow>
                  bnd (sendMail cfg w (FROM cfg) (TO cfg)
                         (''eDir user deleted: '' @ buildDN cfg username)
                         ''Need to deprovision home and other shared folders!'') (\<lambda>_.
                  ret ''SUCCESS: User deleted from eDir''))))))"

section \<open>main: the loop over the batch\<close>

text \<open>
  A row of the input is a JSON object; \<open>row[k]\<close> raises \<open>KeyError\<close> for a missing
  key. The values are the strings that \<open>str(row[k])\<close> gives. \<open>process_row\<close> is the
  body of the loop and returns the line written to the output file.
\<close>

type_synonym row = "(string \<times> string) list"

definition process_row :: "config \<Rightarrow> world \<Rightarrow> row \<Rightarrow> string list io" where
  "process_row cfg w row =
     bnd (lift (getitem row ''action'')) (\<lambda>action.
     bnd (if action = ''create'' then
            bnd (lift (getitem row ''username'')) (\<lambda>username.
            bnd (lift (getitem row ''loginDisabled'')) (\<lambda>loginDisabled.
            bnd (lift (getitem row ''uidNumber'')) (\<lambda>uidNumber.
            bnd (lift (getitem row ''gidNumber'')) (\<lambda>gidNumber.
            bnd (lift (getitem row ''givenName'')) (\<lambda>givenName.
            bnd (lift (getitem row ''fullName'')) (\<lambda>fullName.
            bnd (lift (getitem row ''sn'')) (\<lambda>sn.
            bnd (lift (getitem row ''employeeType'')) (\<lambda>employeeType.
            bnd (lift (getitem row ''DNumber'')) (\<lambda>dNumber.
            bnd (lift (getitem row ''x500UniqueIdentifier'')) (\<lambda>x500UniqueIdentifier.
            bnd (lift (getitem row ''primO'')) (\<lambda>ou.
            bnd (lift (getitem row ''businessCategory'')) (\<lambda>businessCategory.
            bnd (lift (getitem row ''userPassword'')) (\<lambda>userPassword.
            bnd (lift (getitem row ''description'')) (\<lambda>description.
            create cfg w username loginDisabled uidNumber gidNumber givenName fullName sn
              employeeType dNumber x500UniqueIdentifier ou businessCategory userPassword
              description))))))))))))))
          else if action = ''update'' then
            bnd (lift (getitem row ''username'')) (\<lambda>username.
            bnd (lift (getitem row ''newusername'')) (\<lambda>newusername.
            bnd (lift (getitem row ''loginDisabled'')) (\<lambda>loginDisabled.
            bnd (lift (getitem row ''uidNumber'')) (\<lambda>uidNumber.
            bnd (lift (getitem row ''gidNumber'')) (\<lambda>gidNumber.
            bnd (lift (getitem row ''givenName'')) (\<lambda>givenName.
            bnd (lift (getitem row ''fullName'')) (\<lambda>fullName.
            bnd (lift (getitem row ''sn'')) (\<lambda>sn.
            bnd (lift (getitem row ''employeeType'')) (\<lambda>employeeType.
            bnd (lift (getitem row ''DNumber'')) (\<lambda>dNumber.
            bnd (lift (getitem row ''x500UniqueIdentifier'')) (\<lambda>x500UniqueIdentifier.
            bnd (lift (getitem row ''primO'')) (\<lambda>ou.
            bnd (lift (getitem row ''businessCategory'')) (\<lambda>businessCategory.
            bnd (lift (getitem row ''description'')) (\<lambda>description.
            update cfg w username newusername loginDisabled uidNumber gidNumber givenName
              fullName sn employeeType dNumber x500UniqueIdentifier ou businessCategory
              description))))))))))))))
          else if action = ''delete'' then
            bnd (lift (getitem row ''username'')) (\<lambda>username. delete cfg w username)
          else if action = ''archive'' then
            bnd (lift (getitem row ''username'')) (\<lambda>username. archive cfg w username)
          else ret ''ERROR: Unrecognized action'') (\<lambda>result.
     bnd (lift (getitem row ''username'')) (\<lambda>username.
     ret [action, username, result])))"

text \<open>
  Lines 126-173: the loop runs inside one \<open>try\<close> whose handlers print a message and
  leave the loop; the rows written so far stay in the output file. The result is the
  call log, the lines of the output file and the exception that ended the loop, if any.
\<close>

fun useractions ::
  "config \<Rightarrow> world \<Rightarrow> row list \<Rightarrow> string list list \<Rightarrow> event list
     \<Rightarrow> event list \<times> string list list \<times> exn option" where
  "useractions cfg w [] out tr = (tr, out, None)"
| "useractions cfg w (row # rows) out tr =
     (case process_row cfg w row tr of
        (tr', Inl e) \<Rightarrow> (tr', out, Some e)
      | (tr', Inr line) \<Rightarrow> useractions cfg w rows (out @ [line]) tr')"

definition main :: "config \<Rightarrow> world \<Rightarrow> row list \<Rightarrow> event list \<times> string list list \<times> exn option" where
  "main cfg w rows = useractions cfg w rows [[''action'', ''username'', ''result'']] []"

section \<open>Names of the parameters, an example configuration and example worlds\<close>

text \<open>The keys of \<open>locals()\<close> at the head of \<open>create\<close> and of \<open>update\<close>.\<close>

definition create_params :: "string list" where
  "create_params = [''username'', ''loginDisabled'', ''uidNumber'', ''gidNumber'', ''givenName'',
     ''fullName'', ''sn'', ''employeeType'', ''dNumber'', ''x500UniqueIdentifier'', ''ou'',
     ''businessCategory'', ''userPassword'', ''description'']"

definition update_params :: "string list" where
  "update_params = [''username'', ''newusername'', ''loginDisabled'', ''uidNumber'', ''gidNumber'',
     ''givenName'', ''fullName'', ''sn'', ''employeeType'', ''dNumber'', ''x500UniqueIdentifier'',
     ''ou'', ''businessCategory'', ''description'']"

text \<open>A configuration in the shape that the comments of settings.py describe.\<close>

definition cfg0 :: config where
  "cfg0 = \<lparr>LDAPSERVER = ''ldaps://ds:636/'', USER = ''cn=admin,o=DA'', PASSWORD = ''pw'',
     BASEDN = ''o=DA'', MAILDOMAIN = ''@d.edu'', STUPATTERN = ''_'', GSTPATTERN = ''gst'',
     ARUBAPATTERN = ''Aruba-User-Role'', STUSERVER = ''stufs'', EMPSERVER = ''empfs'',
     SHAREOU = ''_PERSONAL,ou=Servers,o=DA'', STUDENTOU = '',ou=Students,o=DA'',
     GUESTOU = '',ou=Visitors,o=DA'', EMPOU = '',ou=Employees,o=DA'',
     DEPGROUPOU = ''_DEPARTMENT,ou=Departments,o=DA'', GeneralMacUsersOU = '',ou=Resources,o=DA'',
     StuGeneralMacUsers = ''Stu_GeneralMac_Users'', GuestGeneralMacUsers = ''Guest_GeneralMac_Users'',
     EmpGeneralMacUsers = ''Emp_GeneralMac_Users'', EmpGeneralWSUsers = ''Emp_GeneralWS_Users'',
     FROM = ''op@d.edu'', TO = ''admin@d.edu'', MAILSERVER = ''mail.d.edu''\<rparr>"

text \<open>Every call succeeds, every search comes back empty, \<open>locals()\<close> iterates backwards.\<close>

definition w_rev :: world where
  "w_rev = \<lparr>call_ok = (\<lambda>tr c. True), found = (\<lambda>tr c. []), locals_order = rev, dedent = (\<lambda>s. s)\<rparr>"

text \<open>The bind and the two precondition searches, as they appear in the call log.\<close>

definition bind_call :: "config \<Rightarrow> call" where
  "bind_call cfg = Simple_bind_s (LDAPSERVER cfg) (USER cfg) (PASSWORD cfg)"

definition find_call :: "config \<Rightarrow> string \<Rightarrow> call" where
  "find_call cfg username = Search_s (BASEDN cfg) SCOPE_SUBTREE (''cn='' @ username) [''dn'']"

definition disabled_call :: "config \<Rightarrow> string \<Rightarrow> call" where
  "disabled_call cfg username =
     Search_s (BASEDN cfg) SCOPE_SUBTREE (''cn='' @ username) [''loginDisabled'']"

text \<open>An entry named john exists, but as a printer outside the users' containers.\<close>

definition w_printer :: world where
  "w_printer = \<lparr>call_ok = (\<lambda>tr c. True),
                 found = (\<lambda>tr c. [(''cn=john,ou=Printers,o=DA'', [])]),
                 locals_order = rev, dedent = (\<lambda>s. s)\<rparr>"

text \<open>The entry of john carries \<open>loginDisabled = true\<close>, in lower case.\<close>

definition w_lowercase :: world where
  "w_lowercase = \<lparr>call_ok = (\<lambda>tr c. True),
                   found = (\<lambda>tr c. [(''cn=john,ou=Employees,o=DA'', [(''loginDisabled'', [''true''])])]),
                   locals_order = rev, dedent = (\<lambda>s. s)\<rparr>"

text \<open>The storage servers do not answer; everything else works.\<close>

definition w_no_storage :: world where
  "w_no_storage = \<lparr>call_ok = (\<lambda>tr c. case c of Urlopen _ \<Rightarrow> False | _ \<Rightarrow> True),
                    found = (\<lambda>tr c. []), locals_order = rev, dedent = (\<lambda>s. s)\<rparr>"

text \<open>Every directory search fails; everything else works.\<close>

definition w_search_down :: world where
  "w_search_down = \<lparr>call_ok = (\<lambda>tr c. case c of Search_s _ _ _ _ \<Rightarrow> False | _ \<Rightarrow> True),
                    found = (\<lambda>tr c. []), locals_order = rev, dedent = (\<lambda>s. s)\<rparr>"


text \<open>The directory refuses to add an entry; everything else works.\<close>

definition w_add_fails :: world where
  "w_add_fails = \<lparr>call_ok = (\<lambda>tr c. case c of Add_s _ _ \<Rightarrow> False | _ \<Rightarrow> True),
                   found = (\<lambda>tr c. []), locals_order = rev, dedent = (\<lambda>s. s)\<rparr>"

text \<open>The directory refuses to add a \<open>member\<close> value to a group; everything else works.\<close>

definition w_group_down :: world where
  "w_group_down =
     \<lparr>call_ok = (\<lambda>tr c. case c of Modify_s _ ((_, a, _) # _) \<Rightarrow> a \<noteq> ''member'' | _ \<Rightarrow> True),
      found = (\<lambda>tr c. []), locals_order = rev, dedent = (\<lambda>s. s)\<rparr>"

text \<open>The entry of john is disabled; no entry carries any other attribute.\<close>

definition w_disabled :: world where
  "w_disabled = \<lparr>call_ok = (\<lambda>tr c. True),
                  found = (\<lambda>tr c. [(''cn=john,ou=Employees,o=DA'', [(''loginDisabled'', [''TRUE''])])]),
                  locals_order = rev, dedent = (\<lambda>s. s)\<rparr>"

section \<open>Vocabulary of the statements about call logs\<close>

text \<open>The search for the role values in \<open>update\<close>.\<close>

definition role_call :: "config \<Rightarrow> string \<Rightarrow> call" where
  "role_call cfg newusername =
     Search_s (BASEDN cfg) SCOPE_SUBTREE (''cn='' @ newusername) [''businessCategory'']"

text \<open>
  What a call log did to one attribute, in the whole directory: for each operation on
  the attribute in a successful modification, in order, the DN of the entry modified,
  the operation and the value.
\<close>

definition mods_on :: "string \<Rightarrow> event list \<Rightarrow> (string \<times> modop \<times> string) list" where
  "mods_on a tr =
     concat (map (\<lambda>e. case request e of
                         Modify_s dn ms \<Rightarrow>
                           if succeeded e
                           then map (\<lambda>(op, a', v). (dn, op, v))
                                  (filter (\<lambda>(op, a', v). a' = a) ms)
                           else []
                       | _ \<Rightarrow> []) tr)"

text \<open>Every event that a computation adds to the call log satisfies \<open>P\<close>.\<close>

definition emits :: "(event \<Rightarrow> bool) \<Rightarrow> 'a io \<Rightarrow> bool" where
  "emits P m \<longleftrightarrow> (\<forall>t. \<exists>evs. fst (m t) = t @ evs \<and> list_all P evs)"

text \<open>
  A directory call issued by the body of the action \<open>f\<close> itself (not inside a
  helper) that raised \<open>LDAPError\<close>.
\<close>

definition directory_failure :: "fn \<Rightarrow> event \<Rightarrow> bool" where
  "directory_failure f e \<longleftrightarrow>
     site e = f \<and> \<not> succeeded e
     \<and> (case request e of Urlopen _ \<Rightarrow> False | Sendmail _ _ _ _ \<Rightarrow> False | _ \<Rightarrow> True)"

text \<open>
  Such a failure can only be the last event that a computation adds to the call log,
  and then the result satisfies \<open>F\<close>.
\<close>

definition stops :: "fn \<Rightarrow> (exn + 'a \<Rightarrow> bool) \<Rightarrow> 'a io \<Rightarrow> bool" where
  "stops f F m \<longleftrightarrow>
     (\<forall>t. \<exists>evs. fst (m t) = t @ evs
            \<and> list_all (\<lambda>e. \<not> directory_failure f e) (butlast evs)
            \<and> (evs \<noteq> [] \<and> directory_failure f (last evs) \<longrightarrow> F (snd (m t))))"

text \<open>A call inside \<open>addMember\<close> or \<open>delMemberUid\<close> that failed.\<close>

definition helper_failure :: "event \<Rightarrow> bool" where
  "helper_failure e \<longleftrightarrow> (site e = In_addMember \<or> site e = In_delMemberUid) \<and> \<not> succeeded e"

text \<open>
  If the last event that a computation adds to the call log is such a failure, the
  result satisfies \<open>F\<close>; with \<open>F\<close> false, the log never ends with one.
\<close>

definition carries_on :: "(exn + 'a \<Rightarrow> bool) \<Rightarrow> 'a io \<Rightarrow> bool" where
  "carries_on F m \<longleftrightarrow>
     (\<forall>t. \<exists>evs. fst (m t) = t @ evs \<and> (evs \<noteq> [] \<and> helper_failure (last evs) \<longrightarrow> F (snd (m t))))"

section \<open>The classifier\<close>

lemma str_in_append: "str_in p (ps @ p @ ss)"
proof (induction ps)
  case Nil
  have "str_in p xs" if "take (length p) xs = p" for xs
    using that by (cases xs) auto
  then show ?case by simp
next
  case (Cons a ps)
  then show ?case by simp
qed

lemma str_in_iff: "str_in p s \<longleftrightarrow> (\<exists>ps ss. s = ps @ p @ ss)"
proof
  show "str_in p s \<Longrightarrow> \<exists>ps ss. s = ps @ p @ ss"
  proof (induction s)
    case Nil
    then show ?case by simp
  next
    case (Cons c cs)
    from Cons.prems have "take (length p) (c # cs) = p \<or> str_in p cs" by simp
    then show ?case
    proof
      assume t: "take (length p) (c # cs) = p"
      have "c # cs = [] @ p @ drop (length p) (c # cs)"
        using append_take_drop_id [of "length p" "c # cs"] t by simp
      then show ?thesis by blast
    next
      assume "str_in p cs"
      then obtain ps ss where "cs = ps @ p @ ss" using Cons.IH by blast
      then have "c # cs = (c # ps) @ p @ ss" by simp
      then show ?thesis by blast
    qed
  qed
next
  show "\<exists>ps ss. s = ps @ p @ ss \<Longrightarrow> str_in p s"
    using str_in_append by blast
qed

text \<open>
  C8. The classifier is a total function of the username (and of the configured
  patterns) that returns one of three categories: Student when the student pattern
  occurs in the username as a substring; otherwise Guest when the guest pattern equals
  the username without its last four characters; otherwise Employee. The Student rule
  is tried first.
\<close>

theorem getUserType_rules:
  "getUserType cfg username =
     (if (\<exists>ps ss. username = ps @ STUPATTERN cfg @ ss) then ''STU''
      else if GSTPATTERN cfg = take (length username - 4) username then ''GST''
      else ''EMP'')"
  unfolding getUserType_def str_in_iff ..

section \<open>Validation of the input values\<close>

lemma missing_item_None:
  assumes "\<forall>(k, v) \<in> set params. v \<noteq> []"
  shows "missing_item w params = None"
proof -
  have "map_of params item \<noteq> Some []" for item
    using assms by (auto dest: map_of_SomeD)
  then show ?thesis by (simp add: missing_item_def find_None_iff)
qed

lemma missing_item_Some:
  assumes ord: "set (locals_order w (map fst params)) = set (map fst params)"
    and dist: "distinct (map fst params)"
    and emp: "(k, []) \<in> set params"
  shows "\<exists>item. missing_item w params = Some item \<and> map_of params item = Some []"
proof -
  have "map_of params k = Some []" using dist emp by simp
  moreover have "k \<in> set (locals_order w (map fst params))"
    using ord emp by force
  ultimately have
    "find (\<lambda>item. map_of params item = Some []) (locals_order w (map fst params)) \<noteq> None"
    by (auto simp: find_None_iff)
  then obtain item where
    f: "find (\<lambda>item. map_of params item = Some []) (locals_order w (map fst params)) = Some item"
    by blast
  then have "map_of params item = Some []" by (auto simp: find_Some_iff)
  with f show ?thesis by (simp add: missing_item_def)
qed

text \<open>
  C6. A Create in which one of the fourteen values is the empty string returns the
  error that names a parameter whose value is empty (the first one in the iteration
  order of \<open>locals()\<close>, whatever that order is), and the call log is unchanged: no
  bind, no search, no mutation, no HTTP request.
\<close>

theorem create_missing_value:
  assumes ord: "set (locals_order w create_params) = set create_params"
    and emp: "username = [] \<or> loginDisabled = [] \<or> uidNumber = [] \<or> gidNumber = []
              \<or> givenName = [] \<or> fullName = [] \<or> sn = [] \<or> employeeType = [] \<or> dNumber = []
              \<or> x500UniqueIdentifier = [] \<or> ou = [] \<or> businessCategory = []
              \<or> userPassword = [] \<or> description = []"
  shows "\<exists>item.
           map_of (zip create_params
                     [username, loginDisabled, uidNumber, gidNumber, givenName, fullName, sn,
                      employeeType, dNumber, x500UniqueIdentifier, ou, businessCategory,
                      userPassword, description]) item = Some []
         \<and> create cfg w username loginDisabled uidNumber gidNumber givenName fullName sn
              employeeType dNumber x500UniqueIdentifier ou businessCategory userPassword
              description tr
           = (tr, Inr (''ERROR: Missing an expected input value for '' @ item @ '' in input file''))"
proof -
  define params where "params =
     [(''username'', username), (''loginDisabled'', loginDisabled),
      (''uidNumber'', uidNumber), (''gidNumber'', gidNumber),
      (''givenName'', givenName), (''fullName'', fullName), (''sn'', sn),
      (''employeeType'', employeeType), (''dNumber'', dNumber),
      (''x500UniqueIdentifier'', x500UniqueIdentifier), (''ou'', ou),
      (''businessCategory'', businessCategory), (''userPassword'', userPassword),
      (''description'', description)]"
  have names: "map fst params = create_params"
    by (simp add: params_def create_params_def)
  have z: "zip create_params
             [username, loginDisabled, uidNumber, gidNumber, givenName, fullName, sn,
              employeeType, dNumber, x500UniqueIdentifier, ou, businessCategory,
              userPassword, description] = params"
    by (simp add: params_def create_params_def)
  have dist: "distinct (map fst params)"
    unfolding names by (simp add: create_params_def)
  have "[] \<in> set (map snd params)"
    using emp unfolding params_def by auto
  then obtain k where "(k, []) \<in> set params"
    by force
  then obtain item where m: "missing_item w params = Some item"
    and v: "map_of params item = Some []"
    using missing_item_Some [of w params k] ord dist names by auto
  have "create cfg w username loginDisabled uidNumber gidNumber givenName fullName sn
          employeeType dNumber x500UniqueIdentifier ou businessCategory userPassword
          description tr
        = (tr, Inr (''ERROR: Missing an expected input value for '' @ item @ '' in input file''))"
    using m unfolding create_def params_def by (simp add: ret_def)
  with v z show ?thesis by metis
qed

text \<open>
  With \<open>sn\<close> and \<open>userPassword\<close> both empty and \<open>locals()\<close> iterating backwards, the
  parameter named is \<open>userPassword\<close>.
\<close>

theorem create_missing_value_witness:
  "set (locals_order w_rev create_params) = set create_params
   \<and> create cfg0 w_rev ''john'' ''False'' ''1'' ''1'' ''J'' ''JT'' [] ''ADM'' ''D01'' ''x'' ''Art''
        ''r'' [] ''d'' []
       = ([], Inr ''ERROR: Missing an expected input value for userPassword in input file'')"
proof -
  have ord: "set (locals_order w_rev create_params) = set create_params"
    by (simp add: w_rev_def)
  from create_missing_value [OF ord, of "''john''" "''False''" "''1''" "''1''" "''J''" "''JT''" "[]"
     "''ADM''" "''D01''" "''x''" "''Art''" "''r''" "[]" "''d''" cfg0 "[]"]
  obtain item where
    "create cfg0 w_rev ''john'' ''False'' ''1'' ''1'' ''J'' ''JT'' [] ''ADM'' ''D01'' ''x'' ''Art''
        ''r'' [] ''d'' []
       = ([], Inr (''ERROR: Missing an expected input value for '' @ item @ '' in input file''))"
    by auto
  moreover have
    "create cfg0 w_rev ''john'' ''False'' ''1'' ''1'' ''J'' ''JT'' [] ''ADM'' ''D01'' ''x'' ''Art''
        ''r'' [] ''d'' []
       = ([], Inr ''ERROR: Missing an expected input value for userPassword in input file'')"
    by (simp add: create_def missing_item_def w_rev_def ret_def)
  ultimately show ?thesis using ord by simp
qed

section \<open>The helpers as equations, and what the mutation blocks can return\<close>

lemma ldapConnect_eq:
  "ldapConnect cfg w tr =
     (tr @ [Ev In_ldapConnect (bind_call cfg) (call_ok w tr (bind_call cfg))],
      Inr (call_ok w tr (bind_call cfg)))"
  by (simp add: ldapConnect_def bind_call_def catch_ldap_def bnd_def perform_def ret_def)

lemma findUser_eq:
  "findUser cfg w username tr =
     (tr @ [Ev In_findUser (find_call cfg username) (call_ok w tr (find_call cfg username))],
      if call_ok w tr (find_call cfg username)
      then Inr (found w tr (find_call cfg username) \<noteq> [])
      else Inl (UnboundLocalError ''ldap_result''))"
  by (simp add: findUser_def find_call_def catch_ldap_def bnd_def search_s_def ret_def raise_def Let_def)

lemma userDisabled_eq:
  "userDisabled cfg w username tr =
     (tr @ [Ev In_userDisabled (disabled_call cfg username)
              (call_ok w tr (disabled_call cfg username))],
      if call_ok w tr (disabled_call cfg username)
      then (case found w tr (disabled_call cfg username) of
              [] \<Rightarrow> Inl IndexError
            | e # _ \<Rightarrow>
                (case map_of (snd e) ''loginDisabled'' of
                   None \<Rightarrow> Inl (KeyError ''loginDisabled'')
                 | Some [] \<Rightarrow> Inl IndexError
                 | Some (v # _) \<Rightarrow> Inr (v = ''TRUE'')))
      else Inl (UnboundLocalError ''ldap_result''))"
  by (simp add: userDisabled_def disabled_call_def catch_ldap_def bnd_def search_s_def ret_def
        raise_def lift_def index0_def getitem_def Let_def split: list.splits option.splits)

lemma archive_move_result:
  "archive_move cfg w username tr = (tr', Inr (Some s)) \<Longrightarrow>
     s = ''ERROR: we do not archive guest accounts'' \<or> s = ''ERROR: Could not move eDir user''"
  by (auto simp: archive_move_def catch_ldap_def bnd_def perform_def ret_def Let_def
        split: if_splits prod.splits sum.splits exn.splits)

lemma delete_entry_result:
  "delete_entry cfg w username tr = (tr', Inr (Some s)) \<Longrightarrow>
     s = ''ERROR: Could not delete eDir user''"
  by (auto simp: delete_entry_def try_except_def bnd_def perform_def ret_def Let_def
        split: if_splits prod.splits sum.splits exn.splits)

lemma bnd_Inr:
  "bnd m g tr = (tr', Inr y) \<Longrightarrow> \<exists>x tr''. m tr = (tr'', Inr x) \<and> g x tr'' = (tr', Inr y)"
  by (auto simp: bnd_def split: prod.splits sum.splits)

lemma catch_ldap_Some:
  assumes "catch_ldap m (ret (Some e)) tr = (tr', Inr (Some s))"
    and "\<And>t t' x. m t = (t', Inr x) \<Longrightarrow> x = None"
  shows "s = e"
  using assms by (auto simp: catch_ldap_def ret_def split: prod.splits sum.splits exn.splits)

lemma try_except_Some:
  assumes "try_except m (ret (Some e)) (\<lambda>e. ret None) tr = (tr', Inr (Some s))"
    and "\<And>t t' x. m t = (t', Inr x) \<Longrightarrow> x = None"
  shows "s = e"
  using assms by (auto simp: try_except_def ret_def split: prod.splits sum.splits exn.splits)

lemma create_mutate_result:
  assumes "create_mutate cfg w username loginDisabled uidNumber gidNumber givenName fullName sn
             employeeType dNumber x500UniqueIdentifier ou businessCategory userPassword description tr
           = (tr', Inr (Some s))"
  shows "s = ''ERROR: Could not create eDir user or update groups''"
  using assms unfolding create_mutate_def
  by (rule catch_ldap_Some) (auto simp: Let_def ret_def dest!: bnd_Inr split: prod.splits)

lemma update_attrs_result:
  assumes "update_attrs cfg w newusername loginDisabled uidNumber gidNumber givenName fullName sn
             employeeType dNumber x500UniqueIdentifier ou businessCategory description tr
           = (tr', Inr (Some s))"
  shows "s = ''ERROR: Could not update eDir user''"
  using assms unfolding update_attrs_def
  by (rule try_except_Some) (auto simp: Let_def ret_def dest!: bnd_Inr split: prod.splits)

lemma update_rename_result:
  assumes "update_rename cfg w username newusername tr = (tr', Inr (Some s))"
  shows "s = ''ERROR: can't rename users across different OUs''
       \<or> s = ''ERROR: username already taken!''
       \<or> s = ''ERROR: Could not rename eDir user''"
proof (cases "getUserType cfg username \<noteq> getUserType cfg newusername")
  case True
  with assms show ?thesis by (simp add: update_rename_def Let_def ret_def)
next
  case False
  let ?body = "bnd (findUser cfg w newusername) (\<lambda>taken.
                if taken then ret (Some ''ERROR: username already taken!'')
                else
                  bnd (perform w In_update (Rename_s (buildDN cfg username) (''cn='' @ newusername) None) LDAPError) (\<lambda>_.
                  let gn = (if getUserType cfg username = ''STU'' then StuGeneralMacUsers cfg
                            else if getUserType cfg username = ''GST'' then GuestGeneralMacUsers cfg
                            else EmpGeneralMacUsers cfg);
                      gdn = ''cn='' @ gn @ GeneralMacUsersOU cfg in
                  bnd (perform w In_update (Modify_s gdn [(MOD_ADD, ''memberUid'', newusername)])
                         LDAPError) (\<lambda>_.
                  bnd (delMemberUid cfg w gn gdn username) (\<lambda>_.
                  ret None))))"
  have body: "x = None \<or> x = Some ''ERROR: username already taken!''"
    if "?body t = (t', Inr x)" for t t' x
    using that by (auto simp: Let_def ret_def dest!: bnd_Inr split: if_splits)
  from assms False obtain t r where
    te: "try_except ?body (ret (Some ''ERROR: Could not rename eDir user'')) (\<lambda>e. ret None) tr = (t, Inr r)"
    and r: "r = Some s"
    by (auto simp: update_rename_def Let_def ret_def dest!: bnd_Inr split: option.splits)
  from te r body show ?thesis
    by (auto simp: try_except_def ret_def split: prod.splits sum.splits exn.splits)
qed

lemma all_nonempty_create:
  assumes "username \<noteq> []" "loginDisabled \<noteq> []" "uidNumber \<noteq> []" "gidNumber \<noteq> []"
    "givenName \<noteq> []" "fullName \<noteq> []" "sn \<noteq> []" "employeeType \<noteq> []" "dNumber \<noteq> []"
    "x500UniqueIdentifier \<noteq> []" "ou \<noteq> []" "businessCategory \<noteq> []" "userPassword \<noteq> []"
    "description \<noteq> []"
  shows "missing_item w
             [(''username'', username), (''loginDisabled'', loginDisabled),
              (''uidNumber'', uidNumber), (''gidNumber'', gidNumber),
              (''givenName'', givenName), (''fullName'', fullName), (''sn'', sn),
              (''employeeType'', employeeType), (''dNumber'', dNumber),
              (''x500UniqueIdentifier'', x500UniqueIdentifier), (''ou'', ou),
              (''businessCategory'', businessCategory), (''userPassword'', userPassword),
              (''description'', description)] = None"
  by (rule missing_item_None) (use assms in simp)

lemma all_nonempty_update:
  assumes "username \<noteq> []" "newusername \<noteq> []" "loginDisabled \<noteq> []" "uidNumber \<noteq> []"
    "gidNumber \<noteq> []"
    "givenName \<noteq> []" "fullName \<noteq> []" "sn \<noteq> []" "employeeType \<noteq> []" "dNumber \<noteq> []"
    "x500UniqueIdentifier \<noteq> []" "ou \<noteq> []" "businessCategory \<noteq> []"
    "description \<noteq> []"
  shows "missing_item w
             [(''username'', username), (''newusername'', newusername),
              (''loginDisabled'', loginDisabled),
              (''uidNumber'', uidNumber), (''gidNumber'', gidNumber),
              (''givenName'', givenName), (''fullName'', fullName), (''sn'', sn),
              (''employeeType'', employeeType), (''dNumber'', dNumber),
              (''x500UniqueIdentifier'', x500UniqueIdentifier), (''ou'', ou),
              (''businessCategory'', businessCategory), (''description'', description)] = None"
  by (rule missing_item_None) (use assms in simp)

lemma create_taken_iff:
  assumes ne: "username \<noteq> []" "loginDisabled \<noteq> []" "uidNumber \<noteq> []" "gidNumber \<noteq> []"
    "givenName \<noteq> []" "fullName \<noteq> []" "sn \<noteq> []" "employeeType \<noteq> []" "dNumber \<noteq> []"
    "x500UniqueIdentifier \<noteq> []" "ou \<noteq> []" "businessCategory \<noteq> []" "userPassword \<noteq> []"
    "description \<noteq> []"
    and b: "call_ok w tr (bind_call cfg)"
    and f: "call_ok w (tr @ [Ev In_ldapConnect (bind_call cfg) True]) (find_call cfg username)"
  shows "snd (create cfg w username loginDisabled uidNumber gidNumber givenName fullName sn
            employeeType dNumber x500UniqueIdentifier ou businessCategory userPassword
            description tr) = Inr ''ERROR: username already taken!''
         \<longleftrightarrow> found w (tr @ [Ev In_ldapConnect (bind_call cfg) True]) (find_call cfg username) \<noteq> []"
proof (cases "found w (tr @ [Ev In_ldapConnect (bind_call cfg) True]) (find_call cfg username) = []")
  case False
  then show ?thesis
    by (simp add: create_def all_nonempty_create [OF ne] bnd_def ret_def ldapConnect_eq findUser_eq b f)
next
  case True
  let ?tr2 = "tr @ [Ev In_ldapConnect (bind_call cfg) True,
                    Ev In_findUser (find_call cfg username) True]"
  obtain t r where m: "create_mutate cfg w username loginDisabled uidNumber gidNumber givenName
      fullName sn employeeType dNumber x500UniqueIdentifier ou businessCategory userPassword
      description ?tr2 = (t, r)"
    by (cases "create_mutate cfg w username loginDisabled uidNumber gidNumber givenName
      fullName sn employeeType dNumber x500UniqueIdentifier ou businessCategory userPassword
      description ?tr2") 
  have "snd (create cfg w username loginDisabled uidNumber gidNumber givenName fullName sn
            employeeType dNumber x500UniqueIdentifier ou businessCategory userPassword
            description tr) \<noteq> Inr ''ERROR: username already taken!''"
    using create_mutate_result [of cfg w username loginDisabled uidNumber gidNumber givenName
      fullName sn employeeType dNumber x500UniqueIdentifier ou businessCategory userPassword
      description ?tr2 t] m True
    by (auto simp: create_def all_nonempty_create [OF ne] bnd_def ret_def ldapConnect_eq
          findUser_eq b f split: sum.splits option.splits prod.splits)
  with True show ?thesis by simp
qed

lemma update_notfound_iff:
  assumes ne: "username \<noteq> []" "newusername \<noteq> []" "loginDisabled \<noteq> []" "uidNumber \<noteq> []"
    "gidNumber \<noteq> []"
    "givenName \<noteq> []" "fullName \<noteq> []" "sn \<noteq> []" "employeeType \<noteq> []" "dNumber \<noteq> []"
    "x500UniqueIdentifier \<noteq> []" "ou \<noteq> []" "businessCategory \<noteq> []"
    "description \<noteq> []"
    and b: "call_ok w tr (bind_call cfg)"
    and f: "call_ok w (tr @ [Ev In_ldapConnect (bind_call cfg) True]) (find_call cfg username)"
  shows "snd (update cfg w username newusername loginDisabled uidNumber gidNumber givenName
            fullName sn employeeType dNumber x500UniqueIdentifier ou businessCategory
            description tr) = Inr ''ERROR: user could not be found!''
         \<longleftrightarrow> found w (tr @ [Ev In_ldapConnect (bind_call cfg) True]) (find_call cfg username) = []"
proof (cases "found w (tr @ [Ev In_ldapConnect (bind_call cfg) True]) (find_call cfg username) = []")
  case True
  then show ?thesis
    by (simp add: update_def all_nonempty_update [OF ne] bnd_def ret_def ldapConnect_eq findUser_eq b f)
next
  case False
  let ?tr2 = "tr @ [Ev In_ldapConnect (bind_call cfg) True,
                    Ev In_findUser (find_call cfg username) True]"
  let ?ren = "(if username \<noteq> newusername then update_rename cfg w username newusername
               else ret None)"
  obtain t1 r1 where ren: "?ren ?tr2 = (t1, r1)" by (cases "?ren ?tr2")
  obtain t2 r2 where att: "update_attrs cfg w newusername loginDisabled uidNumber gidNumber
      givenName fullName sn employeeType dNumber x500UniqueIdentifier ou businessCategory
      description t1 = (t2, r2)"
    by (cases "update_attrs cfg w newusername loginDisabled uidNumber gidNumber
      givenName fullName sn employeeType dNumber x500UniqueIdentifier ou businessCategory
      description t1")
  have r1: "s \<noteq> ''ERROR: user could not be found!''" if "r1 = Inr (Some s)" for s
    using ren that update_rename_result [of cfg w username newusername ?tr2 t1 s]
    by (auto simp: ret_def split: if_splits)
  have r2: "s \<noteq> ''ERROR: user could not be found!''" if "r2 = Inr (Some s)" for s
    using att that update_attrs_result [of cfg w newusername loginDisabled uidNumber gidNumber
      givenName fullName sn employeeType dNumber x500UniqueIdentifier ou businessCategory
      description t1 t2 s]
    by auto
  have "snd (update cfg w username newusername loginDisabled uidNumber gidNumber givenName
            fullName sn employeeType dNumber x500UniqueIdentifier ou businessCategory
            description tr) \<noteq> Inr ''ERROR: user could not be found!''"
    using False ren att r1 r2
    by (auto simp: update_def all_nonempty_update [OF ne] bnd_def ret_def ldapConnect_eq
          findUser_eq b f split: sum.splits option.splits)
  with False show ?thesis by simp
qed

lemma archive_notfound_iff:
  assumes ne: "username \<noteq> []"
    and b: "call_ok w tr (bind_call cfg)"
    and f: "call_ok w (tr @ [Ev In_ldapConnect (bind_call cfg) True]) (find_call cfg username)"
  shows "snd (archive cfg w username tr) = Inr ''ERROR: user could not be found!''
         \<longleftrightarrow> found w (tr @ [Ev In_ldapConnect (bind_call cfg) True]) (find_call cfg username) = []"
proof (cases "found w (tr @ [Ev In_ldapConnect (bind_call cfg) True]) (find_call cfg username) = []")
  case True
  then show ?thesis
    by (simp add: archive_def ne bnd_def ret_def ldapConnect_eq findUser_eq b f)
next
  case False
  have "snd (archive cfg w username tr) \<noteq> Inr ''ERROR: user could not be found!''"
    using False
    by (auto simp: archive_def ne bnd_def ret_def ldapConnect_eq findUser_eq userDisabled_eq b f
          split: sum.splits option.splits prod.splits list.splits if_splits
          dest!: archive_move_result)
  with False show ?thesis by simp
qed

lemma delete_notfound_iff:
  assumes ne: "username \<noteq> []"
    and b: "call_ok w tr (bind_call cfg)"
    and f: "call_ok w (tr @ [Ev In_ldapConnect (bind_call cfg) True]) (find_call cfg username)"
  shows "snd (delete cfg w username tr) = Inr ''ERROR: user could not be found!''
         \<longleftrightarrow> found w (tr @ [Ev In_ldapConnect (bind_call cfg) True]) (find_call cfg username) = []"
proof (cases "found w (tr @ [Ev In_ldapConnect (bind_call cfg) True]) (find_call cfg username) = []")
  case True
  then show ?thesis
    by (simp add: delete_def ne bnd_def ret_def ldapConnect_eq findUser_eq b f)
next
  case False
  have "snd (delete cfg w username tr) \<noteq> Inr ''ERROR: user could not be found!''"
    using False
    by (auto simp: delete_def ne bnd_def ret_def ldapConnect_eq findUser_eq userDisabled_eq b f
          sendMail_def catch_any_def perform_def Let_def
          split: sum.splits option.splits prod.splits list.splits if_splits
          dest!: delete_entry_result)
  with False show ?thesis by simp
qed

section \<open>The existence check\<close>

text \<open>
  C9. The existence check is one search with base \<open>BASEDN\<close>, scope
  \<open>SCOPE_SUBTREE\<close> and filter \<open>cn=<username>\<close>: it does not use the category
  container that \<open>buildDN\<close> computes and has no condition on the object class. The
  user counts as existing exactly when the search returns at least one entry, whatever
  the entries are: then and only then Create answers that the username is taken, and
  Update, Archive and Delete do not answer that the user could not be found.
\<close>

theorem existence_check:
  assumes ne: "username \<noteq> []" "newusername \<noteq> []" "loginDisabled \<noteq> []" "uidNumber \<noteq> []"
    "gidNumber \<noteq> []"
    "givenName \<noteq> []" "fullName \<noteq> []" "sn \<noteq> []" "employeeType \<noteq> []" "dNumber \<noteq> []"
    "x500UniqueIdentifier \<noteq> []" "ou \<noteq> []" "businessCategory \<noteq> []" "userPassword \<noteq> []"
    "description \<noteq> []"
    and tr1: "tr1 = tr @ [Ev In_ldapConnect (bind_call cfg) True]"
    and b: "call_ok w tr (bind_call cfg)"
    and f: "call_ok w tr1 (find_call cfg username)"
  shows "find_call cfg username = Search_s (BASEDN cfg) SCOPE_SUBTREE (''cn='' @ username) [''dn'']
       \<and> findUser cfg w username tr1
           = (tr1 @ [Ev In_findUser (find_call cfg username) True],
              Inr (found w tr1 (find_call cfg username) \<noteq> []))
       \<and> (snd (create cfg w username loginDisabled uidNumber gidNumber givenName fullName sn
                 employeeType dNumber x500UniqueIdentifier ou businessCategory userPassword
                 description tr) = Inr ''ERROR: username already taken!''
            \<longleftrightarrow> found w tr1 (find_call cfg username) \<noteq> [])
       \<and> (snd (update cfg w username newusername loginDisabled uidNumber gidNumber givenName
                 fullName sn employeeType dNumber x500UniqueIdentifier ou businessCategory
                 description tr) = Inr ''ERROR: user could not be found!''
            \<longleftrightarrow> found w tr1 (find_call cfg username) = [])
       \<and> (snd (archive cfg w username tr) = Inr ''ERROR: user could not be found!''
            \<longleftrightarrow> found w tr1 (find_call cfg username) = [])
       \<and> (snd (delete cfg w username tr) = Inr ''ERROR: user could not be found!''
            \<longleftrightarrow> found w tr1 (find_call cfg username) = [])"
proof -
  have f': "call_ok w (tr @ [Ev In_ldapConnect (bind_call cfg) True]) (find_call cfg username)"
    using f tr1 by simp
  have 1: "find_call cfg username = Search_s (BASEDN cfg) SCOPE_SUBTREE (''cn='' @ username) [''dn'']"
    by (simp add: find_call_def)
  have 2: "findUser cfg w username tr1
           = (tr1 @ [Ev In_findUser (find_call cfg username) True],
              Inr (found w tr1 (find_call cfg username) \<noteq> []))"
    using f by (simp add: findUser_eq)
  note 3 = create_taken_iff [OF ne(1) ne(3-15) b f', folded tr1]
  note 4 = update_notfound_iff [OF ne(1-13) ne(15) b f', folded tr1]
  note 5 = archive_notfound_iff [OF ne(1) b f', folded tr1]
  note 6 = delete_notfound_iff [OF ne(1) b f', folded tr1]
  from 1 2 3 4 5 6 show ?thesis by blast
qed

text \<open>
  The only entry named john is a printer in another container; the DN that the script
  builds for john is in the employees' container. John counts as existing all the same.
\<close>

theorem existence_check_witness:
  "found w_printer [Ev In_ldapConnect (bind_call cfg0) True] (find_call cfg0 ''john'')
     = [(''cn=john,ou=Printers,o=DA'', [])]
   \<and> buildDN cfg0 ''john'' = ''cn=john,ou=Employees,o=DA''
   \<and> snd (create cfg0 w_printer ''john'' ''False'' ''1'' ''1'' ''J'' ''JT'' ''T'' ''ADM'' ''D01'' ''x''
             ''Art'' ''r'' ''pw'' ''d'' []) = Inr ''ERROR: username already taken!''
   \<and> snd (update cfg0 w_printer ''john'' ''jack'' ''False'' ''1'' ''1'' ''J'' ''JT'' ''T'' ''ADM'' ''D01''
             ''x'' ''Art'' ''r'' ''d'' []) \<noteq> Inr ''ERROR: user could not be found!''
   \<and> snd (archive cfg0 w_printer ''john'' []) \<noteq> Inr ''ERROR: user could not be found!''
   \<and> snd (delete cfg0 w_printer ''john'' []) \<noteq> Inr ''ERROR: user could not be found!''"
  using existence_check [of "''john''" "''jack''" "''False''" "''1''" "''1''" "''J''" "''JT''" "''T''"
     "''ADM''" "''D01''" "''x''" "''Art''" "''r''" "''pw''" "''d''"
     "[Ev In_ldapConnect (bind_call cfg0) True]" "[]" cfg0 w_printer]
  by (simp add: w_printer_def buildDN_def getUserType_def cfg0_def)

section \<open>The disabled check\<close>

text \<open>
  C10. \<open>userDisabled\<close> answers True exactly when the first value of the
  \<open>loginDisabled\<close> attribute of the first entry found is the string \<open>TRUE\<close>.
  Archive and Delete of an existing user return the error \<open>user is not disabled\<close>
  exactly when that value is anything else, and then they issue no call after the
  search.
\<close>

theorem disabled_iff_TRUE:
  assumes ne: "username \<noteq> []"
    and tr1: "tr1 = tr @ [Ev In_ldapConnect (bind_call cfg) True]"
    and tr2: "tr2 = tr1 @ [Ev In_findUser (find_call cfg username) True]"
    and b: "call_ok w tr (bind_call cfg)"
    and f: "call_ok w tr1 (find_call cfg username)" "found w tr1 (find_call cfg username) \<noteq> []"
    and d: "call_ok w tr2 (disabled_call cfg username)"
           "found w tr2 (disabled_call cfg username) = (dn, attrs) # rest"
           "map_of attrs ''loginDisabled'' = Some (v # vs)"
  shows "userDisabled cfg w username tr2
           = (tr2 @ [Ev In_userDisabled (disabled_call cfg username) True], Inr (v = ''TRUE''))
       \<and> (snd (archive cfg w username tr) = Inr ''ERROR: user is not disabled!'' \<longleftrightarrow> v \<noteq> ''TRUE'')
       \<and> (snd (delete cfg w username tr) = Inr ''ERROR: user is not disabled!'' \<longleftrightarrow> v \<noteq> ''TRUE'')
       \<and> (v \<noteq> ''TRUE'' \<longrightarrow>
            fst (archive cfg w username tr)
              = tr2 @ [Ev In_userDisabled (disabled_call cfg username) True]
          \<and> fst (delete cfg w username tr)
              = tr2 @ [Ev In_userDisabled (disabled_call cfg username) True])"
proof -
  have 1: "userDisabled cfg w username tr2
           = (tr2 @ [Ev In_userDisabled (disabled_call cfg username) True], Inr (v = ''TRUE''))"
    using d by (simp add: userDisabled_eq)
  have pre: "call_ok w (tr @ [Ev In_ldapConnect (bind_call cfg) True]) (find_call cfg username)"
    "found w (tr @ [Ev In_ldapConnect (bind_call cfg) True]) (find_call cfg username) \<noteq> []"
    "call_ok w (tr @ [Ev In_ldapConnect (bind_call cfg) True,
                      Ev In_findUser (find_call cfg username) True]) (disabled_call cfg username)"
    "found w (tr @ [Ev In_ldapConnect (bind_call cfg) True,
                      Ev In_findUser (find_call cfg username) True]) (disabled_call cfg username)
       = (dn, attrs) # rest"
    using f d tr1 tr2 by simp_all
  have a_no: "archive cfg w username tr
                = (tr2 @ [Ev In_userDisabled (disabled_call cfg username) True],
                   Inr ''ERROR: user is not disabled!'')" if "v \<noteq> ''TRUE''"
    using that
    by (simp add: archive_def ne bnd_def ret_def ldapConnect_eq findUser_eq userDisabled_eq b pre
          d(3) tr1 tr2)
  have d_no: "delete cfg w username tr
                = (tr2 @ [Ev In_userDisabled (disabled_call cfg username) True],
                   Inr ''ERROR: user is not disabled!'')" if "v \<noteq> ''TRUE''"
    using that
    by (simp add: delete_def ne bnd_def ret_def ldapConnect_eq findUser_eq userDisabled_eq b pre
          d(3) tr1 tr2)
  have a_yes: "snd (archive cfg w username tr) \<noteq> Inr ''ERROR: user is not disabled!''"
    if "v = ''TRUE''"
    using that
    by (auto simp: archive_def ne bnd_def ret_def ldapConnect_eq findUser_eq userDisabled_eq b pre
          d(3) split: sum.splits option.splits prod.splits dest!: archive_move_result)
  have d_yes: "snd (delete cfg w username tr) \<noteq> Inr ''ERROR: user is not disabled!''"
    if "v = ''TRUE''"
    using that
    by (auto simp: delete_def ne bnd_def ret_def ldapConnect_eq findUser_eq userDisabled_eq b pre
          d(3) sendMail_def catch_any_def perform_def Let_def
          split: sum.splits option.splits prod.splits dest!: delete_entry_result)
  from 1 a_no d_no a_yes d_yes show ?thesis by (cases "v = ''TRUE''") simp_all
qed

text \<open>The value \<open>true\<close> in lower case does not count as disabled.\<close>

theorem disabled_iff_TRUE_witness:
  "map_of (snd (hd (found w_lowercase
             [Ev In_ldapConnect (bind_call cfg0) True, Ev In_findUser (find_call cfg0 ''john'') True]
             (disabled_call cfg0 ''john'')))) ''loginDisabled'' = Some [''true'']
   \<and> archive cfg0 w_lowercase ''john'' []
       = ([Ev In_ldapConnect (bind_call cfg0) True, Ev In_findUser (find_call cfg0 ''john'') True,
           Ev In_userDisabled (disabled_call cfg0 ''john'') True],
          Inr ''ERROR: user is not disabled!'')
   \<and> delete cfg0 w_lowercase ''john'' []
       = ([Ev In_ldapConnect (bind_call cfg0) True, Ev In_findUser (find_call cfg0 ''john'') True,
           Ev In_userDisabled (disabled_call cfg0 ''john'') True],
          Inr ''ERROR: user is not disabled!'')"
  using disabled_iff_TRUE [of "''john''" "[Ev In_ldapConnect (bind_call cfg0) True]" "[]" cfg0
     "[Ev In_ldapConnect (bind_call cfg0) True, Ev In_findUser (find_call cfg0 ''john'') True]"
     w_lowercase "''cn=john,ou=Employees,o=DA''" "[(''loginDisabled'', [''true''])]" "[]"
     "''true''" "[]"]
  by (simp add: w_lowercase_def prod_eq_iff)

section \<open>Create: storage provisioning, and the Guest category\<close>

text \<open>
  Whatever the input and whatever the world answers, \<open>create\<close> never returns the
  storage error that its second handler assigns.
\<close>

lemma create_never_reports_storage_error:
  "snd (create cfg w username loginDisabled uidNumber gidNumber givenName fullName sn
          employeeType dNumber x500UniqueIdentifier ou businessCategory userPassword
          description tr) \<noteq> Inr ''ERROR: Could not provision storage for the user''"
proof -
  have "s \<noteq> ''ERROR: Could not provision storage for the user''"
    if "create_mutate cfg w username loginDisabled uidNumber gidNumber givenName fullName sn
          employeeType dNumber x500UniqueIdentifier ou businessCategory userPassword
          description t = (t', Inr (Some s))" for t t' s
    using create_mutate_result [OF that] by simp
  then show ?thesis
    by (auto simp: create_def bnd_def ret_def ldapConnect_eq findUser_eq
          split: option.splits sum.splits prod.splits if_splits)
qed

text \<open>
  C2 (the code departs from the claim). A Student is created, every directory call
  succeeds, and the first storage trigger raises. The handler at line 374 sets the
  storage error, line 380 then overwrites it: the result is the success string. The
  entry that was added is not touched again.
\<close>

theorem create_storage_failure_returns_success:
  "snd (create cfg0 w_no_storage ''jo_hn'' ''False'' ''1'' ''1'' ''J'' ''JT'' ''T'' ''STU'' ''D01'' ''x''
          ''Art'' ''r'' ''pw'' ''d'' []) = Inr ''SUCCESS: User added to eDir''
   \<and> last (fst (create cfg0 w_no_storage ''jo_hn'' ''False'' ''1'' ''1'' ''J'' ''JT'' ''T'' ''STU'' ''D01''
          ''x'' ''Art'' ''r'' ''pw'' ''d'' []))
       = Ev In_create
           (Urlopen ''http://studentserver.domain.edu/cgi-bin/getspace.pl?username=jo_hn'') False
   \<and> list_all (\<lambda>e. case request e of Delete_s _ \<Rightarrow> False | _ \<Rightarrow> True)
        (fst (create cfg0 w_no_storage ''jo_hn'' ''False'' ''1'' ''1'' ''J'' ''JT'' ''T'' ''STU'' ''D01''
          ''x'' ''Art'' ''r'' ''pw'' ''d'' []))"
  by code_simp

text \<open>
  C3 (the code departs from the claim). For a Guest the local variable \<open>server\<close> is
  never assigned, and \<open>if server:\<close> at line 267 raises before \<open>add_s\<close>: the call log
  holds the bind and the existence search only, and \<open>create\<close> returns no result at
  all. An Employee whose department is not in the table meets the division of two
  strings at line 238 in the same way.
\<close>

theorem create_guest_raises_before_add:
  "getUserType cfg0 ''gst1234'' = ''GST''
   \<and> create cfg0 w_rev ''gst1234'' ''False'' ''1'' ''1'' ''J'' ''JT'' ''T'' ''GST'' ''D01'' ''x'' ''Art''
        ''r'' ''pw'' ''d'' []
       = ([Ev In_ldapConnect (Simple_bind_s ''ldaps://ds:636/'' ''cn=admin,o=DA'' ''pw'') True,
           Ev In_findUser (Search_s ''o=DA'' SCOPE_SUBTREE ''cn=gst1234'' [''dn'']) True],
          Inl (UnboundLocalError ''server''))
   \<and> create cfg0 w_rev ''john'' ''False'' ''1'' ''1'' ''J'' ''JT'' ''T'' ''ADM'' ''D01'' ''x'' ''Biology''
        ''r'' ''pw'' ''d'' []
       = ([Ev In_ldapConnect (Simple_bind_s ''ldaps://ds:636/'' ''cn=admin,o=DA'' ''pw'') True,
           Ev In_findUser (Search_s ''o=DA'' SCOPE_SUBTREE ''cn=john'' [''dn'']) True],
          Inl TypeError)"
  by code_simp

section \<open>The batch\<close>

text \<open>
  C4 (the code departs from the claim). The directory search fails during the
  existence check of the first of two actions. \<open>findUser\<close> catches the
  \<open>LDAPError\<close> and then reads \<open>ldap_result\<close>, which is unbound; the exception leaves
  \<open>delete\<close> and is caught by the handler around the whole loop. The output holds
  the header only: neither action has an outcome, and the second is never started.
\<close>

theorem main_stops_at_failed_search:
  "main cfg0 w_search_down
     [[(''action'', ''delete''), (''username'', ''bob'')],
      [(''action'', ''archive''), (''username'', ''carol'')]]
   = ([Ev In_ldapConnect (Simple_bind_s ''ldaps://ds:636/'' ''cn=admin,o=DA'' ''pw'') True,
       Ev In_findUser (Search_s ''o=DA'' SCOPE_SUBTREE ''cn=bob'' [''dn'']) False],
      [[''action'', ''username'', ''result'']],
      Some (UnboundLocalError ''ldap_result''))"
  by code_simp

section \<open>Update: a rename across categories\<close>

text \<open>
  C5, as the claim states it, fails: \<open>update\<close> binds and searches for the user before
  it compares the categories. Here john (Employee) is renamed to jo_hn (Student): the
  result is the category error, and the call log holds the bind and the search.
\<close>

theorem update_across_categories_counterexample:
  "getUserType cfg0 ''john'' = ''EMP'' \<and> getUserType cfg0 ''jo_hn'' = ''STU''
   \<and> update cfg0 w_printer ''john'' ''jo_hn'' ''False'' ''1'' ''1'' ''J'' ''JT'' ''T'' ''ADM'' ''D01''
        ''x'' ''Art'' ''r'' ''d'' []
      = ([Ev In_ldapConnect (Simple_bind_s ''ldaps://ds:636/'' ''cn=admin,o=DA'' ''pw'') True,
          Ev In_findUser (Search_s ''o=DA'' SCOPE_SUBTREE ''cn=john'' [''dn'']) True],
         Inr ''ERROR: can't rename users across different OUs'')"
  by code_simp

text \<open>
  C5, amended. When all values are non-empty, the bind succeeds and the existence
  search finds the user, an Update whose username and newusername classify to different
  categories returns the category-mismatch error, and the bind and that one search are
  the only calls it issues: no mutation, no second search, no notification.
\<close>

theorem update_across_categories:
  assumes ne: "username \<noteq> []" "newusername \<noteq> []" "loginDisabled \<noteq> []" "uidNumber \<noteq> []"
    "gidNumber \<noteq> []"
    "givenName \<noteq> []" "fullName \<noteq> []" "sn \<noteq> []" "employeeType \<noteq> []" "dNumber \<noteq> []"
    "x500UniqueIdentifier \<noteq> []" "ou \<noteq> []" "businessCategory \<noteq> []"
    "description \<noteq> []"
    and b: "call_ok w tr (bind_call cfg)"
    and f: "call_ok w (tr @ [Ev In_ldapConnect (bind_call cfg) True]) (find_call cfg username)"
           "found w (tr @ [Ev In_ldapConnect (bind_call cfg) True]) (find_call cfg username) \<noteq> []"
    and diff: "getUserType cfg username \<noteq> getUserType cfg newusername"
  shows "update cfg w username newusername loginDisabled uidNumber gidNumber givenName
            fullName sn employeeType dNumber x500UniqueIdentifier ou businessCategory
            description tr
         = (tr @ [Ev In_ldapConnect (bind_call cfg) True,
                  Ev In_findUser (find_call cfg username) True],
            Inr ''ERROR: can't rename users across different OUs'')"
proof -
  from diff have "username \<noteq> newusername" by auto
  then show ?thesis
    using diff
    by (simp add: update_def all_nonempty_update [OF ne] bnd_def ret_def ldapConnect_eq findUser_eq
          b f update_rename_def Let_def)
qed

theorem update_across_categories_witness:
  "getUserType cfg0 ''gst1234'' \<noteq> getUserType cfg0 ''john99''
   \<and> update cfg0 w_printer ''gst1234'' ''john99'' ''False'' ''1'' ''1'' ''J'' ''JT'' ''T'' ''ADM'' ''D01''
        ''x'' ''Art'' ''r'' ''d'' []
      = ([Ev In_ldapConnect (bind_call cfg0) True, Ev In_findUser (find_call cfg0 ''gst1234'') True],
         Inr ''ERROR: can't rename users across different OUs'')"
  using update_across_categories [of "''gst1234''" "''john99''" "''False''" "''1''" "''1''" "''J''"
     "''JT''" "''T''" "''ADM''" "''D01''" "''x''" "''Art''" "''r''" "''d''" w_printer "[]" cfg0]
  by (simp add: w_printer_def getUserType_def cfg0_def)

section \<open>Update: replacement of the role marker\<close>






lemma mods_on_other [simp]:
  "mods_on a [Ev s (Search_s b sc f at) ok] = []"
  "mods_on a [Ev s Unbind_s ok] = []"
  by (simp_all add: mods_on_def)

lemma emitsI: "(\<And>t. \<exists>evs. fst (m t) = t @ evs \<and> list_all P evs) \<Longrightarrow> emits P m"
  by (simp add: emits_def)

lemma emitsD: "emits P m \<Longrightarrow> \<exists>evs. fst (m t) = t @ evs \<and> list_all P evs"
  by (simp add: emits_def)

lemma emits_ret [simp]: "emits P (ret x)"
  by (simp add: emits_def ret_def)

lemma emits_raise [simp]: "emits P (raise e)"
  by (simp add: emits_def raise_def)

lemma emits_lift [simp]: "emits P (lift r)"
  by (simp add: emits_def lift_def)

lemma emits_bnd:
  assumes m: "emits P m" and g: "\<And>x. emits P (g x)"
  shows "emits P (bnd m g)"
proof (rule emitsI)
  fix t
  obtain t1 r1 where mt: "m t = (t1, r1)" by (cases "m t")
  from emitsD [OF m, of t] mt obtain evs1 where e1: "t1 = t @ evs1" "list_all P evs1" by auto
  show "\<exists>evs. fst (bnd m g t) = t @ evs \<and> list_all P evs"
  proof (cases r1)
    case (Inl e)
    with mt e1 show ?thesis by (auto simp: bnd_def)
  next
    case (Inr x)
    from emitsD [OF g, of x t1] obtain evs2 where "fst (g x t1) = t1 @ evs2" "list_all P evs2"
      by auto
    with mt e1 Inr have "fst (bnd m g t) = t @ (evs1 @ evs2)" "list_all P (evs1 @ evs2)"
      by (auto simp: bnd_def)
    then show ?thesis by blast
  qed
qed

lemma emits_handler:
  assumes m: "emits P m" and h: "\<And>t1 e. m t = (t1, Inl e) \<Longrightarrow> emits P (h e)"
  shows "\<exists>evs. fst (case m t of (t1, Inl e) \<Rightarrow> h e t1 | r \<Rightarrow> r) = t @ evs \<and> list_all P evs"
proof -
  obtain t1 r1 where mt: "m t = (t1, r1)" by (cases "m t")
  from emitsD [OF m, of t] mt obtain evs1 where e1: "t1 = t @ evs1" "list_all P evs1" by auto
  show ?thesis
  proof (cases r1)
    case (Inr x)
    with mt e1 show ?thesis by auto
  next
    case (Inl e)
    from emitsD [OF h, of t1 e t1] mt Inl obtain evs2 where
      "fst (h e t1) = t1 @ evs2" "list_all P evs2" by auto
    with mt e1 Inl have "fst (h e t1) = t @ (evs1 @ evs2)" "list_all P (evs1 @ evs2)" by auto
    with mt Inl show ?thesis by (metis (no_types, lifting) old.prod.case sum.simps(5))
  qed
qed

lemma emits_catch_any:
  assumes "emits P m" "\<And>e. emits P (h e)"
  shows "emits P (catch_any m h)"
  unfolding catch_any_def by (rule emitsI) (rule emits_handler [OF assms])

lemma emits_catch_ldap:
  assumes m: "emits P m" and h: "emits P h"
  shows "emits P (catch_ldap m h)"
proof -
  have eq: "catch_ldap m h = catch_any m (\<lambda>e. case e of LDAPError \<Rightarrow> h | _ \<Rightarrow> raise e)"
    by (rule ext) (simp add: catch_ldap_def catch_any_def raise_def
          split: prod.splits sum.splits exn.splits)
  show ?thesis unfolding eq
    by (rule emits_catch_any [OF m]) (simp add: h split: exn.splits)
qed


lemma emits_perform:
  assumes "\<And>ok. P (Ev who c ok)"
  shows "emits P (perform w who c e)"
  by (rule emitsI) (simp add: perform_def assms)

lemma emits_search_s:
  assumes "\<And>ok. P (Ev who (Search_s base sc flt at) ok)"
  shows "emits P (search_s w who base sc flt at)"
  by (rule emitsI) (simp add: search_s_def Let_def assms)

lemma emits_ldapConnect:
  assumes "\<And>ok. P (Ev In_ldapConnect (bind_call cfg) ok)"
  shows "emits P (ldapConnect cfg w)"
  by (rule emitsI) (simp add: ldapConnect_eq assms)

lemma emits_findUser:
  assumes "\<And>ok. P (Ev In_findUser (find_call cfg username) ok)"
  shows "emits P (findUser cfg w username)"
  by (rule emitsI) (simp add: findUser_eq assms)

lemma emits_userDisabled:
  assumes "\<And>ok. P (Ev In_userDisabled (disabled_call cfg username) ok)"
  shows "emits P (userDisabled cfg w username)"
  by (rule emitsI) (simp add: userDisabled_eq assms)

lemma emits_addMember:
  assumes "\<And>ok. P (Ev In_addMember
                     (Modify_s gdn [(MOD_ADD, ''member'', dn), (MOD_ADD, ''equivalentToMe'', dn)]) ok)"
  shows "emits P (addMember w gdn dn)"
  unfolding addMember_def
  by (intro emits_catch_ldap emits_perform emits_ret assms)

lemma emits_delMemberUid_loop:
  assumes "\<And>member ok. P (Ev In_delMemberUid (Modify_s gdn [(MOD_DELETE, ''memberUid'', member)]) ok)"
  shows "emits P (delMemberUid_loop w gdn username members)"
  by (induction members) (auto intro!: emits_bnd emits_perform assms)

lemma emits_delMemberUid:
  assumes "\<And>member ok. P (Ev In_delMemberUid (Modify_s gdn [(MOD_DELETE, ''memberUid'', member)]) ok)"
    and "\<And>ok. P (Ev In_delMemberUid
                     (Search_s (BASEDN cfg) SCOPE_SUBTREE (''cn='' @ gn) [''memberUid'']) ok)"
  shows "emits P (delMemberUid cfg w gn gdn username)"
  unfolding delMemberUid_def
  by (intro emits_catch_ldap emits_bnd emits_search_s emits_lift emits_ret
        emits_delMemberUid_loop assms)

lemma emits_sendMail:
  assumes "\<And>srv a b msg ok. P (Ev In_sendMail (Sendmail srv a b msg) ok)"
  shows "emits P (sendMail cfg w frm to subject txt)"
  unfolding sendMail_def Let_def
  by (intro emits_catch_any emits_perform emits_ret assms)

lemma mods_on_Nil [simp]: "mods_on a [] = []"
  by (simp add: mods_on_def)


lemma emits_if:
  "(c \<Longrightarrow> emits P a) \<Longrightarrow> (\<not> c \<Longrightarrow> emits P b) \<Longrightarrow> emits P (if c then a else b)"
  by simp





section \<open>A directory error ends the action\<close>

lemma stopsI:
  "(\<And>t. \<exists>evs. fst (m t) = t @ evs
            \<and> list_all (\<lambda>e. \<not> directory_failure f e) (butlast evs)
            \<and> (evs \<noteq> [] \<and> directory_failure f (last evs) \<longrightarrow> F (snd (m t))))
   \<Longrightarrow> stops f F m"
  by (simp add: stops_def)

lemma stops_cases:
  assumes "stops f F m" and "m t = (t1, r1)"
  obtains (clean) evs where "t1 = t @ evs" "list_all (\<lambda>e. \<not> directory_failure f e) evs"
  | (failed) evs e where "t1 = t @ evs @ [e]" "list_all (\<lambda>e. \<not> directory_failure f e) evs"
      "directory_failure f e" "F r1"
proof -
  from assms obtain evs where e: "t1 = t @ evs"
    "list_all (\<lambda>e. \<not> directory_failure f e) (butlast evs)"
    "evs \<noteq> [] \<and> directory_failure f (last evs) \<longrightarrow> F r1"
    unfolding stops_def by (metis fst_conv snd_conv)
  show thesis
  proof (cases "evs \<noteq> [] \<and> directory_failure f (last evs)")
    case True
    then have "evs = butlast evs @ [last evs]" by simp
    with e True failed [of "butlast evs" "last evs"] show ?thesis by metis
  next
    case False
    have "list_all (\<lambda>e. \<not> directory_failure f e) evs"
    proof (cases "evs = []")
      case True
      then show ?thesis by simp
    next
      case ne: False
      then have "evs = butlast evs @ [last evs]" by simp
      moreover have "\<not> directory_failure f (last evs)" using False ne by simp
      ultimately show ?thesis using e(2) by (metis list.pred_inject(1,2) list_all_append)
    qed
    with e clean show ?thesis by blast
  qed
qed

lemma stops_clean:
  assumes "fst (m t) = t @ evs" "list_all (\<lambda>e. \<not> directory_failure f e) evs"
  shows "\<exists>evs. fst (m t) = t @ evs
            \<and> list_all (\<lambda>e. \<not> directory_failure f e) (butlast evs)
            \<and> (evs \<noteq> [] \<and> directory_failure f (last evs) \<longrightarrow> F (snd (m t)))"
proof -
  have "list_all (\<lambda>e. \<not> directory_failure f e) (butlast evs)"
    using assms(2) by (auto simp: list_all_iff dest: in_set_butlastD)
  moreover have "evs \<noteq> [] \<longrightarrow> \<not> directory_failure f (last evs)"
    using assms(2) by (auto simp: list_all_iff)
  ultimately show ?thesis using assms(1) by blast
qed

lemma stops_failed:
  assumes "fst (m t) = t @ evs @ [e]" "list_all (\<lambda>e. \<not> directory_failure f e) evs"
    "F (snd (m t))"
  shows "\<exists>evs. fst (m t) = t @ evs
            \<and> list_all (\<lambda>e. \<not> directory_failure f e) (butlast evs)
            \<and> (evs \<noteq> [] \<and> directory_failure f (last evs) \<longrightarrow> F (snd (m t)))"
  using assms by (intro exI [of _ "evs @ [e]"]) simp

lemma stops_emits:
  assumes "emits (\<lambda>e. \<not> directory_failure f e) m"
  shows "stops f F m"
proof (rule stopsI)
  fix t
  from emitsD [OF assms, of t] obtain evs where
    "fst (m t) = t @ evs" "list_all (\<lambda>e. \<not> directory_failure f e) evs" by blast
  then show "\<exists>evs. fst (m t) = t @ evs
            \<and> list_all (\<lambda>e. \<not> directory_failure f e) (butlast evs)
            \<and> (evs \<noteq> [] \<and> directory_failure f (last evs) \<longrightarrow> F (snd (m t)))"
    by (rule stops_clean)
qed

lemma stops_ret [simp]: "stops f F (ret x)"
  by (rule stops_emits) simp

lemma stops_lift [simp]: "stops f F (lift r)"
  by (rule stops_emits) simp

lemma stops_perform:
  assumes "F (Inl LDAPError)"
  shows "stops f F (perform w who c LDAPError)"
  by (rule stopsI) (simp add: perform_def assms directory_failure_def)

lemma stops_search_s:
  assumes "F (Inl LDAPError)"
  shows "stops f F (search_s w who base sc flt at)"
  by (rule stopsI) (simp add: search_s_def Let_def assms directory_failure_def)

lemma stops_bnd:
  assumes m: "stops f F m" and g: "\<And>x. stops f G (g x)"
    and fl: "\<And>e. F (Inl e) \<Longrightarrow> G (Inl e)"
    and fr: "\<And>x. F (Inr x) \<Longrightarrow> \<exists>y. g x = ret y \<and> G (Inr y)"
  shows "stops f G (bnd m g)"
proof (rule stopsI)
  fix t
  obtain t1 r1 where mt: "m t = (t1, r1)" by (cases "m t")
  from m mt show "\<exists>evs. fst (bnd m g t) = t @ evs
            \<and> list_all (\<lambda>e. \<not> directory_failure f e) (butlast evs)
            \<and> (evs \<noteq> [] \<and> directory_failure f (last evs) \<longrightarrow> G (snd (bnd m g t)))"
  proof (cases rule: stops_cases)
    case (failed evs e)
    show ?thesis
    proof (cases r1)
      case (Inl x)
      with failed mt fl show ?thesis
        by (intro stops_failed [of _ _ evs e]) (auto simp: bnd_def)
    next
      case (Inr x)
      with failed fr obtain y where "g x = ret y" "G (Inr y)" by blast
      with failed mt Inr show ?thesis
        by (intro stops_failed [of _ _ evs e]) (auto simp: bnd_def ret_def)
    qed
  next
    case (clean evs)
    show ?thesis
    proof (cases r1)
      case (Inl x)
      with clean mt show ?thesis
        by (intro stops_clean [of _ _ evs]) (auto simp: bnd_def)
    next
      case (Inr x)
      obtain t2 r2 where gt: "g x t1 = (t2, r2)" by (cases "g x t1")
      have b: "bnd m g t = (t2, r2)" using mt Inr gt by (simp add: bnd_def)
      from g [of x] gt show ?thesis
      proof (cases rule: stops_cases)
        case c2: (clean evs2)
        with clean b show ?thesis
          by (intro stops_clean [of _ _ "evs @ evs2"]) auto
      next
        case f2: (failed evs2 e2)
        with clean b show ?thesis
          by (intro stops_failed [of _ _ "evs @ evs2" e2]) auto
      qed
    qed
  qed
qed

lemma stops_bnd_raise:
  assumes "stops f (\<lambda>r. r = Inl LDAPError) m" "\<And>x. stops f (\<lambda>r. r = Inl LDAPError) (g x)"
  shows "stops f (\<lambda>r. r = Inl LDAPError) (bnd m g)"
  by (rule stops_bnd [OF assms]) auto

lemma stops_handler:
  assumes m: "stops f (\<lambda>r. r = Inl LDAPError) m"
    and h: "\<And>t1. h t1 = (t1, Inr y)" and G: "G (Inr y)"
    and other: "\<And>t1 r1. m t = (t1, r1) \<Longrightarrow> fst (k (t1, r1)) = t1"
    and ldap: "\<And>t1. k (t1, Inl LDAPError) = h t1"
  shows "\<exists>evs. fst (k (m t)) = t @ evs
            \<and> list_all (\<lambda>e. \<not> directory_failure f e) (butlast evs)
            \<and> (evs \<noteq> [] \<and> directory_failure f (last evs) \<longrightarrow> G (snd (k (m t))))"
proof -
  obtain t1 r1 where mt: "m t = (t1, r1)" by (cases "m t")
  from m mt show ?thesis
  proof (cases rule: stops_cases)
    case (clean evs)
    with mt other [OF mt] show ?thesis
      by (intro stops_clean [of _ _ evs]) auto
  next
    case (failed evs e)
    with mt h G ldap show ?thesis
      by (intro stops_failed [of _ _ evs e]) auto
  qed
qed

lemma stops_catch_ldap:
  assumes "stops f (\<lambda>r. r = Inl LDAPError) m" "G (Inr y)"
  shows "stops f G (catch_ldap m (ret y))"
proof (rule stopsI)
  fix t
  have eq: "catch_ldap m (ret y) t
     = (\<lambda>p. case p of (tr', Inl LDAPError) \<Rightarrow> ret y tr' | r \<Rightarrow> r) (m t)"
    by (simp add: catch_ldap_def)
  show "\<exists>evs. fst (catch_ldap m (ret y) t) = t @ evs
            \<and> list_all (\<lambda>e. \<not> directory_failure f e) (butlast evs)
            \<and> (evs \<noteq> [] \<and> directory_failure f (last evs) \<longrightarrow> G (snd (catch_ldap m (ret y) t)))"
    unfolding eq
    by (rule stops_handler [OF assms(1), where h = "ret y"])
       (auto simp: ret_def assms(2) split: sum.splits exn.splits)
qed

lemma stops_try_except:
  assumes "stops f (\<lambda>r. r = Inl LDAPError) m" "G (Inr y)"
  shows "stops f G (try_except m (ret y) (\<lambda>e. ret z))"
proof (rule stopsI)
  fix t
  have eq: "try_except m (ret y) (\<lambda>e. ret z) t
     = (\<lambda>p. case p of (tr', Inl LDAPError) \<Rightarrow> ret y tr' | (tr', Inl e) \<Rightarrow> ret z tr' | r \<Rightarrow> r) (m t)"
    by (simp add: try_except_def)
  show "\<exists>evs. fst (try_except m (ret y) (\<lambda>e. ret z) t) = t @ evs
            \<and> list_all (\<lambda>e. \<not> directory_failure f e) (butlast evs)
            \<and> (evs \<noteq> [] \<and> directory_failure f (last evs)
                 \<longrightarrow> G (snd (try_except m (ret y) (\<lambda>e. ret z) t)))"
    unfolding eq
    by (rule stops_handler [OF assms(1), where h = "ret y"])
       (auto simp: ret_def assms(2) split: sum.splits exn.splits)
qed

lemma stops_if:
  "(c \<Longrightarrow> stops f F a) \<Longrightarrow> (\<not> c \<Longrightarrow> stops f F b) \<Longrightarrow> stops f F (if c then a else b)"
  by simp

lemma stopsD:
  assumes "stops f F m"
  shows "\<exists>evs. fst (m t) = t @ evs
           \<and> (\<forall>i<length evs. directory_failure f (evs ! i) \<longrightarrow> Suc i = length evs \<and> F (snd (m t)))"
proof -
  obtain t1 r1 where mt: "m t = (t1, r1)" by (cases "m t")
  from assms mt show ?thesis
  proof (cases rule: stops_cases)
    case (clean evs)
    then have "\<forall>i<length evs. \<not> directory_failure f (evs ! i)"
      by (simp add: list_all_length)
    with clean mt show ?thesis by auto
  next
    case (failed evs e)
    have "\<forall>i<length (evs @ [e]). directory_failure f ((evs @ [e]) ! i)
            \<longrightarrow> Suc i = length (evs @ [e]) \<and> F (snd (m t))"
    proof (intro allI impI)
      fix i assume i: "i < length (evs @ [e])" and d: "directory_failure f ((evs @ [e]) ! i)"
      have "\<not> i < length evs"
      proof
        assume "i < length evs"
        then have "(evs @ [e]) ! i = evs ! i" by (simp add: nth_append)
        with d failed(2) \<open>i < length evs\<close> show False by (simp add: list_all_length)
      qed
      with i have "Suc i = length (evs @ [e])" by simp
      with failed mt show "Suc i = length (evs @ [e]) \<and> F (snd (m t))" by simp
    qed
    with failed mt show ?thesis by (intro exI [of _ "evs @ [e]"]) simp
  qed
qed

lemma stops_case_option:
  "stops f F a \<Longrightarrow> (\<And>x. stops f F (g x)) \<Longrightarrow> stops f F (case_option a g v)"
  by (cases v) simp_all

lemma stops_bnd_helper:
  assumes "emits (\<lambda>e. \<not> directory_failure f e) m" "\<And>x. stops f G (g x)"
  shows "stops f G (bnd m g)"
  by (rule stops_bnd [where F = "\<lambda>_. False"]) (simp_all add: stops_emits assms)

lemma stops_bnd_returned:
  assumes "stops f (\<lambda>r. r = Inr (Some y)) m" "\<And>x. stops f G (g x)"
    "g (Some y) = ret z" "G (Inr z)"
  shows "stops f G (bnd m g)"
  by (rule stops_bnd [OF assms(1,2)]) (auto simp: assms(3,4))

lemma helpers_clean:
  assumes "f \<in> {In_create, In_update, In_archive, In_delete}"
  shows "emits (\<lambda>e. \<not> directory_failure f e) (ldapConnect cfg w)"
    and "emits (\<lambda>e. \<not> directory_failure f e) (findUser cfg w username)"
    and "emits (\<lambda>e. \<not> directory_failure f e) (userDisabled cfg w username)"
    and "emits (\<lambda>e. \<not> directory_failure f e) (addMember w gdn dn)"
    and "emits (\<lambda>e. \<not> directory_failure f e) (delMemberUid cfg w gn gdn username)"
    and "emits (\<lambda>e. \<not> directory_failure f e) (sendMail cfg w frm to subject txt)"
  using assms
  by (auto intro!: emits_ldapConnect emits_findUser emits_userDisabled emits_addMember
        emits_delMemberUid emits_sendMail simp: directory_failure_def)

lemma create_group_loop_stops:
  "stops In_create (\<lambda>r. r = Inl LDAPError) (create_group_loop w dn groups)"
proof (induction groups)
  case Nil
  show ?case by simp
next
  case (Cons g groups)
  show ?case
    by (simp del: bnd_def)
       (intro stops_bnd_raise stops_perform stops_bnd_helper helpers_clean Cons.IH, simp_all)
qed

lemma update_role_loop_stops:
  "stops In_update (\<lambda>r. r = Inl LDAPError) (update_role_loop cfg w dn vals)"
proof (induction vals)
  case Nil
  show ?case by simp
next
  case (Cons v vals)
  show ?case
    by (simp del: bnd_def)
       (intro conjI impI stops_bnd_raise stops_perform stops_ret Cons.IH, simp_all)
qed

lemma create_mutate_stops:
  "stops In_create (\<lambda>r. r = Inr (Some ''ERROR: Could not create eDir user or update groups''))
     (create_mutate cfg w username loginDisabled uidNumber gidNumber givenName fullName sn
        employeeType dNumber x500UniqueIdentifier ou businessCategory userPassword description)"
  unfolding create_mutate_def Let_def case_prod_beta
  by (intro stops_catch_ldap stops_bnd_raise stops_lift stops_perform stops_ret
        create_group_loop_stops) simp_all

lemma create_provision_clean:
  "emits (\<lambda>e. \<not> directory_failure In_create e) (create_provision cfg w username ou)"
  unfolding create_provision_def Let_def
  by (intro emits_catch_any emits_if emits_bnd emits_perform emits_ret)
     (simp_all add: directory_failure_def)

lemmas create_helpers = helpers_clean [of In_create, simplified]

lemma create_stops:
  "stops In_create (\<lambda>r. r = Inr ''ERROR: Could not create eDir user or update groups'')
     (create cfg w username loginDisabled uidNumber gidNumber givenName fullName sn
        employeeType dNumber x500UniqueIdentifier ou businessCategory userPassword description)"
proof -
  let ?G = "\<lambda>r. r = Inr ''ERROR: Could not create eDir user or update groups''"
  have tail: "stops In_create ?G
     (case returned of
        Some result \<Rightarrow> ret result
      | None \<Rightarrow> bnd (create_provision cfg w username ou) (\<lambda>_. ret ''SUCCESS: User added to eDir''))"
    for returned
    by (cases returned)
       (simp_all add: stops_emits emits_bnd create_provision_clean)
  have mut: "stops In_create ?G
     (bnd (create_mutate cfg w username loginDisabled uidNumber gidNumber givenName
                     fullName sn employeeType dNumber x500UniqueIdentifier ou businessCategory
                     userPassword description) (\<lambda>returned.
              case returned of
                Some result \<Rightarrow> ret result
              | None \<Rightarrow>
                  bnd (create_provision cfg w username ou) (\<lambda>_.
                  ret ''SUCCESS: User added to eDir'')))"
    by (rule stops_bnd_returned [OF create_mutate_stops tail]) simp_all
  show ?thesis
    unfolding create_def
    by (intro stops_case_option stops_ret stops_if
          stops_bnd_helper [OF create_helpers(1)] stops_bnd_helper [OF create_helpers(2)] mut)
qed

lemmas update_helpers = helpers_clean [of In_update, simplified]

lemmas archive_helpers = helpers_clean [of In_archive, simplified]

lemmas delete_helpers = helpers_clean [of In_delete, simplified]

lemma update_rename_stops:
  "stops In_update (\<lambda>r. r = Inr (Some ''ERROR: Could not rename eDir user''))
     (update_rename cfg w username newusername)"
proof -
  let ?F = "\<lambda>r. r = Inr (Some ''ERROR: Could not rename eDir user'')"
  have tail: "stops In_update ?F
     (case returned of
        Some result \<Rightarrow> ret (Some result)
      | None \<Rightarrow> bnd (sendMail cfg w a b c d) (\<lambda>_. ret None))"
    for returned a b c d
    by (cases returned) (simp_all add: stops_emits emits_bnd update_helpers)
  show ?thesis
    unfolding update_rename_def Let_def
    apply (rule stops_if)
     apply simp
    apply (rule stops_bnd_returned [OF _ tail])
      apply (rule stops_try_except)
       apply (intro stops_bnd_helper [OF update_helpers(2)] stops_if stops_ret)
       apply (intro stops_bnd_raise stops_perform stops_ret
                stops_emits [OF update_helpers(5)])
         apply simp_all
    done
qed

lemma update_attrs_stops:
  "stops In_update (\<lambda>r. r = Inr (Some ''ERROR: Could not update eDir user''))
     (update_attrs cfg w newusername loginDisabled uidNumber gidNumber givenName fullName sn
        employeeType dNumber x500UniqueIdentifier ou businessCategory description)"
  unfolding update_attrs_def Let_def
  by (intro stops_try_except stops_bnd_raise stops_search_s stops_lift stops_perform stops_ret
        update_role_loop_stops) simp_all

lemma update_stops:
  "stops In_update
     (\<lambda>r. r = Inr ''ERROR: Could not rename eDir user'' \<or> r = Inr ''ERROR: Could not update eDir user'')
     (update cfg w username newusername loginDisabled uidNumber gidNumber givenName fullName sn
        employeeType dNumber x500UniqueIdentifier ou businessCategory description)"
proof -
  let ?G = "\<lambda>r. r = Inr ''ERROR: Could not rename eDir user''
                \<or> r = Inr ''ERROR: Could not update eDir user''"
  have last: "stops In_update ?G
     (case returned of Some result \<Rightarrow> ret result | None \<Rightarrow> ret ''SUCCESS: User updated in eDir'')"
    for returned
    by (cases returned) simp_all
  have att: "stops In_update ?G
     (bnd (update_attrs cfg w newusername loginDisabled uidNumber gidNumber givenName
                         fullName sn employeeType dNumber x500UniqueIdentifier ou businessCategory
                         description) (\<lambda>returned.
                  case returned of
                    Some result \<Rightarrow> ret result
                  | None \<Rightarrow> ret ''SUCCESS: User updated in eDir''))"
    by (rule stops_bnd_returned [OF update_attrs_stops last,
          where z = "''ERROR: Could not update eDir user''"]) simp_all
  have tail: "stops In_update ?G
     (case returned of
                Some result \<Rightarrow> ret result
              | None \<Rightarrow>
                  bnd (update_attrs cfg w newusername loginDisabled uidNumber gidNumber givenName
                         fullName sn employeeType dNumber x500UniqueIdentifier ou businessCategory
                         description) (\<lambda>returned.
                  case returned of
                    Some result \<Rightarrow> ret result
                  | None \<Rightarrow> ret ''SUCCESS: User updated in eDir''))"
    for returned
    by (cases returned) (simp_all add: att)
  have ren: "stops In_update (\<lambda>r. r = Inr (Some ''ERROR: Could not rename eDir user''))
     (if username \<noteq> newusername then update_rename cfg w username newusername else ret None)"
    by (simp add: update_rename_stops)
  have ren_tail: "stops In_update ?G
     (bnd (if username \<noteq> newusername then update_rename cfg w username newusername
                   else ret None) (\<lambda>returned.
              case returned of
                Some result \<Rightarrow> ret result
              | None \<Rightarrow>
                  bnd (update_attrs cfg w newusername loginDisabled uidNumber gidNumber givenName
                         fullName sn employeeType dNumber x500UniqueIdentifier ou businessCategory
                         description) (\<lambda>returned.
                  case returned of
                    Some result \<Rightarrow> ret result
                  | None \<Rightarrow> ret ''SUCCESS: User updated in eDir'')))"
    by (rule stops_bnd_returned [OF ren tail,
          where z = "''ERROR: Could not rename eDir user''"]) simp_all
  show ?thesis
    unfolding update_def
    by (intro stops_case_option stops_ret stops_if
          stops_bnd_helper [OF update_helpers(1)] stops_bnd_helper [OF update_helpers(2)] ren_tail)
qed

lemma archive_move_stops:
  "stops In_archive (\<lambda>r. r = Inr (Some ''ERROR: Could not move eDir user''))
     (archive_move cfg w username)"
  unfolding archive_move_def Let_def
  by (intro stops_catch_ldap stops_if stops_bnd_raise stops_perform stops_ret) simp_all

lemma archive_stops:
  "stops In_archive (\<lambda>r. r = Inr ''ERROR: Could not move eDir user'') (archive cfg w username)"
proof -
  let ?G = "\<lambda>r. r = Inr ''ERROR: Could not move eDir user''"
  have last: "stops In_archive ?G
     (case returned of Some result \<Rightarrow> ret result | None \<Rightarrow> ret ''SUCCESS: User archived in eDir'')"
    for returned
    by (cases returned) simp_all
  have mv: "stops In_archive ?G
     (bnd (archive_move cfg w username) (\<lambda>returned.
              case returned of
                Some result \<Rightarrow> ret result
              | None \<Rightarrow> ret ''SUCCESS: User archived in eDir''))"
    by (rule stops_bnd_returned [OF archive_move_stops last]) simp_all
  show ?thesis
    unfolding archive_def
    by (intro stops_ret stops_if
          stops_bnd_helper [OF archive_helpers(1)] stops_bnd_helper [OF archive_helpers(2)]
          stops_bnd_helper [OF archive_helpers(3)] mv)
qed

lemma delete_entry_stops:
  "stops In_delete (\<lambda>r. r = Inr (Some ''ERROR: Could not delete eDir user''))
     (delete_entry cfg w username)"
  unfolding delete_entry_def Let_def
  by (intro stops_try_except stops_bnd_raise stops_perform stops_ret
        stops_emits [OF delete_helpers(5)]) simp_all

lemma delete_stops:
  "stops In_delete (\<lambda>r. r = Inr ''ERROR: Could not delete eDir user'') (delete cfg w username)"
proof -
  let ?G = "\<lambda>r. r = Inr ''ERROR: Could not delete eDir user''"
  have last: "stops In_delete ?G
     (case returned of
                Some result \<Rightarrow> ret result
              | None \<Rightarrow>
                  bnd (sendMail cfg w (FROM cfg) (TO cfg)
                         (''eDir user deleted: '' @ buildDN cfg username)
                         ''Need to deprovision home and other shared folders!'') (\<lambda>_.
                  ret ''SUCCESS: User deleted from eDir''))"
    for returned
    by (cases returned) (simp_all add: stops_emits emits_bnd delete_helpers)
  have del: "stops In_delete ?G
     (bnd (delete_entry cfg w username) (\<lambda>returned.
              case returned of
                Some result \<Rightarrow> ret result
              | None \<Rightarrow>
                  bnd (sendMail cfg w (FROM cfg) (TO cfg)
                         (''eDir user deleted: '' @ buildDN cfg username)
                         ''Need to deprovision home and other shared folders!'') (\<lambda>_.
                  ret ''SUCCESS: User deleted from eDir'')))"
    by (rule stops_bnd_returned [OF delete_entry_stops last]) simp_all
  show ?thesis
    unfolding delete_def
    by (intro stops_ret stops_if
          stops_bnd_helper [OF delete_helpers(1)] stops_bnd_helper [OF delete_helpers(2)]
          stops_bnd_helper [OF delete_helpers(3)] del)
qed

text \<open>The helpers catch their own directory errors, and the action goes on after them.\<close>

lemma carries_onI:
  "(\<And>t. \<exists>evs. fst (m t) = t @ evs \<and> (evs \<noteq> [] \<and> helper_failure (last evs) \<longrightarrow> F (snd (m t))))
   \<Longrightarrow> carries_on F m"
  by (simp add: carries_on_def)

lemma carries_onD:
  "carries_on F m \<Longrightarrow>
     \<exists>evs. fst (m t) = t @ evs \<and> (evs \<noteq> [] \<and> helper_failure (last evs) \<longrightarrow> F (snd (m t)))"
  by (simp add: carries_on_def)

lemma emits_mono:
  assumes "emits P m" "\<And>e. P e \<Longrightarrow> Q e"
  shows "emits Q m"
proof (rule emitsI)
  fix t
  from emitsD [OF assms(1), of t] obtain evs where "fst (m t) = t @ evs" "list_all P evs" by blast
  moreover from this(2) assms(2) have "list_all Q evs" by (auto simp: list_all_iff)
  ultimately show "\<exists>evs. fst (m t) = t @ evs \<and> list_all Q evs" by blast
qed

lemma carries_on_emits:
  assumes "emits (\<lambda>e. \<not> helper_failure e) m"
  shows "carries_on F m"
proof (rule carries_onI)
  fix t
  from emitsD [OF assms, of t] obtain evs where
    e: "fst (m t) = t @ evs" "list_all (\<lambda>e. \<not> helper_failure e) evs" by blast
  then have "evs \<noteq> [] \<longrightarrow> \<not> helper_failure (last evs)" by (auto simp: list_all_iff)
  with e show "\<exists>evs. fst (m t) = t @ evs \<and> (evs \<noteq> [] \<and> helper_failure (last evs) \<longrightarrow> F (snd (m t)))"
    by blast
qed

lemma carries_on_bnd:
  assumes m: "carries_on F m" and g: "\<And>x. carries_on G (g x)"
    and fl: "\<And>e. F (Inl e) \<Longrightarrow> G (Inl e)"
    and fr: "\<And>x t. F (Inr x) \<Longrightarrow> fst (g x t) = t \<Longrightarrow> G (snd (g x t))"
  shows "carries_on G (bnd m g)"
proof (rule carries_onI)
  fix t
  obtain t1 r1 where mt: "m t = (t1, r1)" by (cases "m t")
  from carries_onD [OF m, of t] mt obtain evs1 where
    e1: "t1 = t @ evs1" "evs1 \<noteq> [] \<and> helper_failure (last evs1) \<longrightarrow> F r1" by auto
  show "\<exists>evs. fst (bnd m g t) = t @ evs
             \<and> (evs \<noteq> [] \<and> helper_failure (last evs) \<longrightarrow> G (snd (bnd m g t)))"
  proof (cases r1)
    case (Inl e)
    with mt e1 fl show ?thesis by (intro exI [of _ evs1]) (auto simp: bnd_def)
  next
    case (Inr x)
    obtain t2 r2 where gt: "g x t1 = (t2, r2)" by (cases "g x t1")
    from carries_onD [OF g, of x t1] gt obtain evs2 where
      e2: "t2 = t1 @ evs2" "evs2 \<noteq> [] \<and> helper_failure (last evs2) \<longrightarrow> G r2" by auto
    have b: "bnd m g t = (t2, r2)" using mt Inr gt by (simp add: bnd_def)
    show ?thesis
    proof (cases "evs2 = []")
      case True
      with e2 gt have "fst (g x t1) = t1" by simp
      with fr [of x t1] Inr e1 gt have "evs1 \<noteq> [] \<and> helper_failure (last evs1) \<longrightarrow> G r2"
        by auto
      with True e1 e2 b show ?thesis by (intro exI [of _ evs1]) auto
    next
      case False
      with e1 e2 b show ?thesis by (intro exI [of _ "evs1 @ evs2"]) auto
    qed
  qed
qed

lemma carries_on_bnd0:
  assumes "carries_on (\<lambda>_. False) m" "\<And>x. carries_on G (g x)"
  shows "carries_on G (bnd m g)"
  by (rule carries_on_bnd [OF assms]) simp_all

lemma carries_on_same_log:
  assumes m: "carries_on F m"
    and l: "\<And>t. fst (k t) = fst (m t)"
    and r: "\<And>t. F (snd (m t)) \<Longrightarrow> G (snd (k t))"
  shows "carries_on G k"
proof (rule carries_onI)
  fix t
  from carries_onD [OF m, of t] obtain evs where
    "fst (m t) = t @ evs" "evs \<noteq> [] \<and> helper_failure (last evs) \<longrightarrow> F (snd (m t))" by blast
  with l [of t] r [of t]
  show "\<exists>evs. fst (k t) = t @ evs \<and> (evs \<noteq> [] \<and> helper_failure (last evs) \<longrightarrow> G (snd (k t)))"
    by auto
qed

lemma carries_on_catch_ldap:
  assumes "carries_on F m" "\<And>r. F r \<Longrightarrow> G (case r of Inl LDAPError \<Rightarrow> Inr y | _ \<Rightarrow> r)"
  shows "carries_on G (catch_ldap m (ret y))"
proof (rule carries_on_same_log [OF assms(1)])
  fix t
  show "fst (catch_ldap m (ret y) t) = fst (m t)"
    by (simp add: catch_ldap_def ret_def split: prod.splits sum.splits exn.splits)
  assume "F (snd (m t))"
  from assms(2) [OF this] show "G (snd (catch_ldap m (ret y) t))"
    by (auto simp: catch_ldap_def ret_def split: prod.splits sum.splits exn.splits)
qed

lemma carries_on_try_except:
  assumes "carries_on F m"
    "\<And>r. F r \<Longrightarrow> G (case r of Inl LDAPError \<Rightarrow> Inr y | Inl _ \<Rightarrow> Inr z | _ \<Rightarrow> r)"
  shows "carries_on G (try_except m (ret y) (\<lambda>e. ret z))"
proof (rule carries_on_same_log [OF assms(1)])
  fix t
  show "fst (try_except m (ret y) (\<lambda>e. ret z) t) = fst (m t)"
    by (simp add: try_except_def ret_def split: prod.splits sum.splits exn.splits)
  assume "F (snd (m t))"
  from assms(2) [OF this] show "G (snd (try_except m (ret y) (\<lambda>e. ret z) t))"
    by (auto simp: try_except_def ret_def split: prod.splits sum.splits exn.splits)
qed

lemma carries_on_if:
  "(c \<Longrightarrow> carries_on F a) \<Longrightarrow> (\<not> c \<Longrightarrow> carries_on F b) \<Longrightarrow> carries_on F (if c then a else b)"
  by simp

lemma carries_on_case_option:
  "carries_on F a \<Longrightarrow> (\<And>x. carries_on F (g x)) \<Longrightarrow> carries_on F (case_option a g v)"
  by (cases v) simp_all

lemma carries_on_from_stops:
  assumes s: "stops f F m" and e: "emits (\<lambda>e. helper_failure e \<longrightarrow> directory_failure f e) m"
  shows "carries_on F m"
proof (rule carries_onI)
  fix t
  obtain t1 r1 where mt: "m t = (t1, r1)" by (cases "m t")
  from emitsD [OF e, of t] mt obtain evs where
    ev: "t1 = t @ evs" "list_all (\<lambda>e. helper_failure e \<longrightarrow> directory_failure f e) evs" by auto
  have "F r1" if "evs \<noteq> []" "helper_failure (last evs)"
  proof -
    from that ev(2) have d: "directory_failure f (last evs)" by (auto simp: list_all_iff)
    from s mt show ?thesis
    proof (cases rule: stops_cases)
      case (clean evs')
      with ev that d show ?thesis by (auto simp: list_all_iff)
    next
      case (failed evs' e')
      then show ?thesis by simp
    qed
  qed
  with mt ev show "\<exists>evs. fst (m t) = t @ evs
                    \<and> (evs \<noteq> [] \<and> helper_failure (last evs) \<longrightarrow> F (snd (m t)))"
    by auto
qed

lemma carries_onE:
  assumes "carries_on (\<lambda>_. False) m"
  shows "\<exists>evs. fst (m t) = t @ evs \<and> (\<forall>i<length evs. helper_failure (evs ! i) \<longrightarrow> Suc i < length evs)"
proof -
  from carries_onD [OF assms, of t] obtain evs where
    e: "fst (m t) = t @ evs" "evs \<noteq> [] \<longrightarrow> \<not> helper_failure (last evs)" by auto
  have "Suc i < length evs" if "i < length evs" "helper_failure (evs ! i)" for i
  proof (rule ccontr)
    assume "\<not> Suc i < length evs"
    with that have ne: "evs \<noteq> []" and i: "i = length evs - 1" by auto
    from ne i have "evs ! i = last evs" by (simp add: last_conv_nth)
    with e ne that show False by simp
  qed
  with e show ?thesis by blast
qed

lemma addMember_eq:
  "addMember w gdn dn t
   = (t @ [Ev In_addMember
             (Modify_s gdn [(MOD_ADD, ''member'', dn), (MOD_ADD, ''equivalentToMe'', dn)])
             (call_ok w t (Modify_s gdn [(MOD_ADD, ''member'', dn), (MOD_ADD, ''equivalentToMe'', dn)]))],
      Inr ())"
  by (simp add: addMember_def catch_ldap_def perform_def ret_def)

lemma addMember_carries: "carries_on (\<lambda>r. r = Inr ()) (addMember w gdn dn)"
  by (rule carries_onI) (simp add: addMember_eq)

lemma delMemberUid_loop_stops:
  "stops In_delMemberUid (\<lambda>r. r = Inl LDAPError) (delMemberUid_loop w gdn username members)"
proof (induction members)
  case Nil
  show ?case by simp
next
  case (Cons member members)
  show ?case
    by (simp only: delMemberUid_loop.simps)
       (intro stops_bnd_raise stops_if stops_perform stops_ret Cons.IH, simp_all)
qed

lemma delMemberUid_stops:
  "stops In_delMemberUid (\<lambda>r. r = Inr ()) (delMemberUid cfg w gn gdn username)"
  unfolding delMemberUid_def
  by (intro stops_catch_ldap stops_bnd_raise stops_search_s stops_lift delMemberUid_loop_stops)
     simp_all

lemma delMemberUid_carries:
  "carries_on (\<lambda>r. r = Inr ()) (delMemberUid cfg w gn gdn username)"
  by (rule carries_on_from_stops [OF delMemberUid_stops])
     (auto intro!: emits_delMemberUid simp: directory_failure_def helper_failure_def)

lemma delMemberUid_never_LDAPError:
  "snd (delMemberUid cfg w gn gdn username t) \<noteq> Inl LDAPError"
  by (simp add: delMemberUid_def catch_ldap_def ret_def split: prod.splits sum.splits exn.splits)

lemma bnd_perform_extends:
  assumes "\<And>x. emits P (g x)"
  shows "fst (bnd (perform w who c e) g t) \<noteq> t"
proof (cases "call_ok w t c")
  case False
  then show ?thesis by (simp add: bnd_def perform_def)
next
  case True
  from emitsD [OF assms, of "()" "t @ [Ev who c True]"] obtain evs where
    "fst (g () (t @ [Ev who c True])) = (t @ [Ev who c True]) @ evs" by blast
  with True show ?thesis by (simp add: bnd_def perform_def)
qed

lemma create_group_loop_logs: "emits (\<lambda>e. True) (create_group_loop w dn groups)"
  by (induction groups) (auto intro!: emits_bnd emits_perform emits_addMember)

lemma create_group_loop_quiet:
  "fst (create_group_loop w dn groups t) = t \<Longrightarrow> snd (create_group_loop w dn groups t) = Inr ()"
proof (cases groups)
  case Nil
  then show ?thesis by (simp add: ret_def)
next
  case (Cons g gs)
  assume "fst (create_group_loop w dn groups t) = t"
  with Cons show ?thesis
    using bnd_perform_extends [of "\<lambda>e. True"
        "\<lambda>_. bnd (addMember w g dn) (\<lambda>_. create_group_loop w dn gs)" w In_create _ LDAPError t]
    by (auto intro!: emits_bnd emits_addMember create_group_loop_logs)
qed

lemma not_helper_failure:
  "site e \<noteq> In_addMember \<Longrightarrow> site e \<noteq> In_delMemberUid \<Longrightarrow> \<not> helper_failure e"
  by (simp add: helper_failure_def)

lemma carries_on_perform:
  assumes "who \<noteq> In_addMember" "who \<noteq> In_delMemberUid"
  shows "carries_on F (perform w who c e)"
  by (rule carries_on_emits, rule emits_perform) (simp add: helper_failure_def assms)

lemma carries_on_search_s:
  assumes "who \<noteq> In_addMember" "who \<noteq> In_delMemberUid"
  shows "carries_on F (search_s w who base sc flt at)"
  by (rule carries_on_emits, rule emits_search_s) (simp add: helper_failure_def assms)

lemma carries_on_ret [simp]: "carries_on F (ret x)"
  by (rule carries_on_emits) simp

lemma carries_on_lift [simp]: "carries_on F (lift r)"
  by (rule carries_on_emits) simp

lemma carries_on_others:
  "carries_on F (ldapConnect cfg w)"
  "carries_on F (findUser cfg w username)"
  "carries_on F (userDisabled cfg w username)"
  "carries_on F' (sendMail cfg w a b c d)"
  by (auto intro!: carries_on_emits emits_ldapConnect emits_findUser emits_userDisabled
        emits_sendMail simp: helper_failure_def)

lemma create_group_loop_carries:
  "carries_on (\<lambda>r. r = Inr ()) (create_group_loop w dn groups)"
proof (induction groups)
  case Nil
  show ?case by simp
next
  case (Cons g groups)
  have inner: "carries_on (\<lambda>r. r = Inr ())
                 (bnd (addMember w g dn) (\<lambda>_. create_group_loop w dn groups))"
    by (rule carries_on_bnd [OF addMember_carries Cons.IH])
       (simp_all add: create_group_loop_quiet)
  show ?case
    by simp (rule carries_on_bnd0 [OF carries_on_perform inner], simp_all)
qed

lemma create_mutate_carries:
  "carries_on (\<lambda>_. False)
     (create_mutate cfg w username loginDisabled uidNumber gidNumber givenName fullName sn
        employeeType dNumber x500UniqueIdentifier ou businessCategory userPassword description)"
proof -
  have rest: "carries_on (\<lambda>_. False)
       (bnd (perform w In_create (Modify_s gdn [(MOD_ADD, ''memberUid'', username)]) LDAPError) (\<lambda>_.
        bnd (perform w In_create Unbind_s LDAPError) (\<lambda>_.
        ret (None :: string option))))" for gdn
    by (intro carries_on_bnd0 carries_on_perform carries_on_ret) simp_all
  have after_loop: "carries_on (\<lambda>_. False)
       (bnd (create_group_loop w dn groups) (\<lambda>_.
        bnd (perform w In_create (Modify_s gdn [(MOD_ADD, ''memberUid'', username)]) LDAPError) (\<lambda>_.
        bnd (perform w In_create Unbind_s LDAPError) (\<lambda>_.
        ret (None :: string option)))))" for dn groups gdn
  proof (rule carries_on_bnd [OF create_group_loop_carries rest])
    fix t
    let ?rest = "bnd (perform w In_create (Modify_s gdn [(MOD_ADD, ''memberUid'', username)])
                      LDAPError) (\<lambda>_.
               bnd (perform w In_create Unbind_s LDAPError) (\<lambda>_.
               ret (None :: string option)))"
    assume "fst (?rest t) = t"
    moreover have "fst (?rest t) \<noteq> t"
      by (rule bnd_perform_extends [where P = "\<lambda>e. True"])
         (intro emits_bnd emits_perform emits_ret, simp_all)
    ultimately show False by simp
  qed simp
  have after_add: "carries_on (\<lambda>_. False)
       (bnd (perform w In_create (Add_s dn ldif) LDAPError) (\<lambda>_.
        bnd (create_group_loop w dn groups) (\<lambda>_.
        bnd (perform w In_create (Modify_s gdn [(MOD_ADD, ''memberUid'', username)]) LDAPError) (\<lambda>_.
        bnd (perform w In_create Unbind_s LDAPError) (\<lambda>_.
        ret (None :: string option))))))" for dn ldif groups gdn
    by (rule carries_on_bnd0 [OF carries_on_perform after_loop]) simp_all
  show ?thesis
    unfolding create_mutate_def Let_def case_prod_beta
    apply (rule carries_on_catch_ldap [where F = "\<lambda>_. False"])
     apply (rule carries_on_bnd0 [OF carries_on_lift])
     apply (rule carries_on_bnd0 [OF carries_on_lift])
     apply (rule after_add)
    apply simp
    done
qed

lemma sendMail_extends: "fst (sendMail cfg w a b c d t) \<noteq> t"
  by (simp add: sendMail_def Let_def catch_any_def perform_def ret_def)

lemma create_provision_carries:
  "carries_on F (create_provision cfg w username ou)"
  unfolding create_provision_def Let_def
  by (rule carries_on_emits,
      intro emits_catch_any emits_if emits_bnd emits_perform emits_ret)
     (simp_all add: helper_failure_def)

lemma create_carries:
  "carries_on (\<lambda>_. False)
     (create cfg w username loginDisabled uidNumber gidNumber givenName fullName sn
        employeeType dNumber x500UniqueIdentifier ou businessCategory userPassword description)"
proof -
  have tail: "carries_on (\<lambda>_. False)
     (case returned of
        Some result \<Rightarrow> ret result
      | None \<Rightarrow> bnd (create_provision cfg w username ou) (\<lambda>_. ret ''SUCCESS: User added to eDir''))"
    for returned
    by (cases returned)
       (auto intro!: carries_on_bnd0 create_provision_carries)
  have mut: "carries_on (\<lambda>_. False)
     (bnd (create_mutate cfg w username loginDisabled uidNumber gidNumber givenName
                     fullName sn employeeType dNumber x500UniqueIdentifier ou businessCategory
                     userPassword description) (\<lambda>returned.
              case returned of
                Some result \<Rightarrow> ret result
              | None \<Rightarrow>
                  bnd (create_provision cfg w username ou) (\<lambda>_.
                  ret ''SUCCESS: User added to eDir'')))"
    by (rule carries_on_bnd0 [OF create_mutate_carries tail])
  show ?thesis
    unfolding create_def
    by (intro carries_on_case_option carries_on_ret carries_on_if
          carries_on_bnd0 [OF carries_on_others(1)] carries_on_bnd0 [OF carries_on_others(2)] mut)
qed

lemma update_role_loop_carries:
  "carries_on F (update_role_loop cfg w dn vals)"
proof (induction vals)
  case Nil
  show ?case by simp
next
  case (Cons v vals)
  show ?case
    by simp (intro conjI impI carries_on_bnd0 carries_on_perform carries_on_ret Cons.IH, simp_all)
qed

lemma update_attrs_carries:
  "carries_on (\<lambda>_. False)
     (update_attrs cfg w newusername loginDisabled uidNumber gidNumber givenName fullName sn
        employeeType dNumber x500UniqueIdentifier ou businessCategory description)"
  unfolding update_attrs_def Let_def
  apply (rule carries_on_try_except [where F = "\<lambda>_. False"])
   apply (intro carries_on_bnd0 carries_on_search_s carries_on_lift carries_on_perform
            carries_on_ret update_role_loop_carries)
         apply simp_all
  done

lemma update_rename_carries:
  "carries_on (\<lambda>_. False) (update_rename cfg w username newusername)"
proof -
  have del: "carries_on (\<lambda>r. r = Inr None)
               (bnd (delMemberUid cfg w gn gdn username) (\<lambda>_. ret (None :: string option)))"
    for gn gdn
    by (rule carries_on_bnd [OF delMemberUid_carries]) (simp_all add: ret_def)
  have body: "carries_on (\<lambda>r. r = Inr None)
       (bnd (findUser cfg w newusername) (\<lambda>taken.
                if taken then ret (Some ''ERROR: username already taken!'')
                else
                  bnd (perform w In_update (Rename_s dn (''cn='' @ newusername) None) LDAPError) (\<lambda>_.
                  bnd (perform w In_update (Modify_s gdn [(MOD_ADD, ''memberUid'', newusername)])
                         LDAPError) (\<lambda>_.
                  bnd (delMemberUid cfg w gn gdn username) (\<lambda>_.
                  ret None)))))" for dn gn gdn
    by (intro carries_on_bnd0 [OF carries_on_others(2)] carries_on_if carries_on_ret
          carries_on_bnd0 [OF carries_on_perform] del) simp_all
  have tried: "carries_on (\<lambda>r. r = Inr None)
       (try_except
          (bnd (findUser cfg w newusername) (\<lambda>taken.
                if taken then ret (Some ''ERROR: username already taken!'')
                else
                  bnd (perform w In_update (Rename_s dn (''cn='' @ newusername) None) LDAPError) (\<lambda>_.
                  bnd (perform w In_update (Modify_s gdn [(MOD_ADD, ''memberUid'', newusername)])
                         LDAPError) (\<lambda>_.
                  bnd (delMemberUid cfg w gn gdn username) (\<lambda>_.
                  ret None)))))
          (ret (Some ''ERROR: Could not rename eDir user''))
          (\<lambda>e. ret None))" for dn gn gdn
    by (rule carries_on_try_except [OF body]) simp
  have tail: "carries_on (\<lambda>_. False)
       (case returned of
               Some result \<Rightarrow> ret (Some result)
             | None \<Rightarrow> bnd (sendMail cfg w a b c d) (\<lambda>_. ret None))" for returned a b c d
    by (cases returned) (auto intro!: carries_on_bnd0 carries_on_others)
  have quiet: "fst ((case returned of
               Some result \<Rightarrow> ret (Some result)
             | None \<Rightarrow> bnd (sendMail cfg w a b c d) (\<lambda>_. ret None)) t) = t \<Longrightarrow> returned \<noteq> None"
    for returned :: "string option" and a b c d t
    using sendMail_extends [of cfg w a b c d t]
    by (cases returned)
       (auto simp: bnd_def ret_def sendMail_def Let_def catch_any_def perform_def
             split: prod.splits sum.splits)
  show ?thesis
    unfolding update_rename_def Let_def
    apply (rule carries_on_if)
     apply simp
    apply (rule carries_on_bnd [OF tried tail])
     apply simp
    apply (drule quiet)
    apply simp
    done
qed

lemma update_carries:
  "carries_on (\<lambda>_. False)
     (update cfg w username newusername loginDisabled uidNumber gidNumber givenName fullName sn
        employeeType dNumber x500UniqueIdentifier ou businessCategory description)"
proof -
  have last: "carries_on (\<lambda>_. False)
     (case returned of Some result \<Rightarrow> ret result | None \<Rightarrow> ret ''SUCCESS: User updated in eDir'')"
    for returned
    by (cases returned) simp_all
  have tail: "carries_on (\<lambda>_. False)
     (case returned of
                Some result \<Rightarrow> ret result
              | None \<Rightarrow>
                  bnd (update_attrs cfg w newusername loginDisabled uidNumber gidNumber givenName
                         fullName sn employeeType dNumber x500UniqueIdentifier ou businessCategory
                         description) (\<lambda>returned.
                  case returned of
                    Some result \<Rightarrow> ret result
                  | None \<Rightarrow> ret ''SUCCESS: User updated in eDir''))"
    for returned
    by (cases returned) (auto intro!: carries_on_bnd0 [OF update_attrs_carries] last)
  have ren: "carries_on (\<lambda>_. False)
     (if username \<noteq> newusername then update_rename cfg w username newusername else ret None)"
    by (simp add: update_rename_carries)
  show ?thesis
    unfolding update_def
    by (intro carries_on_case_option carries_on_ret carries_on_if
          carries_on_bnd0 [OF carries_on_others(1)] carries_on_bnd0 [OF carries_on_others(2)]
          carries_on_bnd0 [OF ren] tail)
qed

lemma archive_carries: "carries_on (\<lambda>_. False) (archive cfg w username)"
proof -
  have mv: "carries_on (\<lambda>_. False) (archive_move cfg w username)"
    unfolding archive_move_def Let_def
    apply (rule carries_on_catch_ldap [where F = "\<lambda>_. False"])
     apply (intro carries_on_if carries_on_bnd0 carries_on_perform carries_on_ret)
               apply simp_all
    done
  have last: "carries_on (\<lambda>_. False)
     (case returned of Some result \<Rightarrow> ret result | None \<Rightarrow> ret ''SUCCESS: User archived in eDir'')"
    for returned
    by (cases returned) simp_all
  show ?thesis
    unfolding archive_def
    by (intro carries_on_ret carries_on_if
          carries_on_bnd0 [OF carries_on_others(1)] carries_on_bnd0 [OF carries_on_others(2)]
          carries_on_bnd0 [OF carries_on_others(3)] carries_on_bnd0 [OF mv] last)
qed

lemma delete_entry_carries: "carries_on (\<lambda>_. False) (delete_entry cfg w username)"
proof -
  have rest: "carries_on (\<lambda>_. False)
       (bnd (perform w In_delete Unbind_s LDAPError) (\<lambda>_. ret (None :: string option)))"
    by (intro carries_on_bnd0 carries_on_perform carries_on_ret) simp_all
  have after: "carries_on (\<lambda>_. False)
       (bnd (delMemberUid cfg w gn gdn username) (\<lambda>_.
        bnd (perform w In_delete Unbind_s LDAPError) (\<lambda>_. ret (None :: string option))))"
    for gn gdn
  proof (rule carries_on_bnd [OF delMemberUid_carries rest])
    fix t
    let ?rest = "bnd (perform w In_delete Unbind_s LDAPError) (\<lambda>_. ret (None :: string option))"
    assume "fst (?rest t) = t"
    moreover have "fst (?rest t) \<noteq> t"
      by (rule bnd_perform_extends [where P = "\<lambda>e. True"]) simp
    ultimately show False by simp
  qed simp
  have body: "carries_on (\<lambda>_. False)
       (bnd (perform w In_delete (Delete_s dn) LDAPError) (\<lambda>_.
        bnd (delMemberUid cfg w gn gdn username) (\<lambda>_.
        bnd (perform w In_delete Unbind_s LDAPError) (\<lambda>_. ret (None :: string option)))))"
    for dn gn gdn
    by (rule carries_on_bnd0 [OF carries_on_perform after]) simp_all
  show ?thesis
    unfolding delete_entry_def Let_def
    by (rule carries_on_try_except [OF body]) simp
qed

lemma delete_carries: "carries_on (\<lambda>_. False) (delete cfg w username)"
proof -
  have last: "carries_on (\<lambda>_. False)
     (case returned of
                Some result \<Rightarrow> ret result
              | None \<Rightarrow>
                  bnd (sendMail cfg w (FROM cfg) (TO cfg)
                         (''eDir user deleted: '' @ buildDN cfg username)
                         ''Need to deprovision home and other shared folders!'') (\<lambda>_.
                  ret ''SUCCESS: User deleted from eDir''))"
    for returned
    by (cases returned) (auto intro!: carries_on_bnd0 carries_on_others)
  show ?thesis
    unfolding delete_def
    by (intro carries_on_ret carries_on_if
          carries_on_bnd0 [OF carries_on_others(1)] carries_on_bnd0 [OF carries_on_others(2)]
          carries_on_bnd0 [OF carries_on_others(3)] carries_on_bnd0 [OF delete_entry_carries] last)
qed

lemma ends_and_carries:
  assumes s: "stops f F m" and c: "carries_on (\<lambda>_. False) m"
  shows "\<exists>evs. fst (m t) = t @ evs
           \<and> (\<forall>i<length evs. directory_failure f (evs ! i) \<longrightarrow> Suc i = length evs \<and> F (snd (m t)))
           \<and> (\<forall>i<length evs. helper_failure (evs ! i) \<longrightarrow> Suc i < length evs)"
proof -
  from stopsD [OF s, of t] obtain evs where
    1: "fst (m t) = t @ evs"
       "\<forall>i<length evs. directory_failure f (evs ! i) \<longrightarrow> Suc i = length evs \<and> F (snd (m t))"
    by blast
  from carries_onE [OF c, of t] obtain evs' where
    2: "fst (m t) = t @ evs'" "\<forall>i<length evs'. helper_failure (evs' ! i) \<longrightarrow> Suc i < length evs'"
    by blast
  from 1(1) 2(1) have "evs' = evs" by simp
  with 1 2 show ?thesis by blast
qed

text \<open>
  What the handlers written \<open>except Exception\<close> do in \<open>update\<close> and
  \<open>delete\<close>: they assign the error result and do not return. An entry without
  \<open>businessCategory\<close> makes the loop header of \<open>update\<close> raise \<open>KeyError\<close>:
  no modification is issued and the result is success. A group entry without
  \<open>memberUid\<close> does the same to \<open>delete\<close>, which then notifies the operator.
\<close>

lemma success_after_KeyError:
  "update cfg0 w_printer ''john'' ''john'' ''False'' ''1'' ''1'' ''J'' ''JT'' ''T'' ''ADM'' ''D01'' ''x''
     ''Art'' ''r'' ''d'' []
     = ([Ev In_ldapConnect (bind_call cfg0) True,
         Ev In_findUser (find_call cfg0 ''john'') True,
         Ev In_update (role_call cfg0 ''john'') True],
        Inr ''SUCCESS: User updated in eDir'')
   \<and> snd (delete cfg0 w_disabled ''john'' []) = Inr ''SUCCESS: User deleted from eDir''
   \<and> map site (fst (delete cfg0 w_disabled ''john'' []))
       = [In_ldapConnect, In_findUser, In_userDisabled, In_delete, In_delMemberUid, In_sendMail]"
  by code_simp

text \<open>
  C1, as the claim states it, fails: \<open>addMember\<close> catches the \<open>LDAPError\<close> of the
  group-side modification, logs it and returns, so \<open>create\<close> goes on. Here the fifth
  call (adding the member to the group) fails, the sixth call (the \<open>memberUid\<close>
  modification) is issued all the same, and the result is success.
\<close>

theorem group_failure_counterexample:
  "fst (create cfg0 w_group_down ''jo_hn'' ''False'' ''1'' ''1'' ''J'' ''JT'' ''T'' ''STU'' ''D01'' ''x''
          ''Art'' ''r'' ''pw'' ''d'' []) ! 4
     = Ev In_addMember
         (Modify_s ''cn=Stu_GeneralMac_Users,ou=Resources,o=DA''
            [(MOD_ADD, ''member'', ''cn=jo_hn,ou=Students,o=DA''),
             (MOD_ADD, ''equivalentToMe'', ''cn=jo_hn,ou=Students,o=DA'')]) False
   \<and> fst (create cfg0 w_group_down ''jo_hn'' ''False'' ''1'' ''1'' ''J'' ''JT'' ''T'' ''STU'' ''D01'' ''x''
          ''Art'' ''r'' ''pw'' ''d'' []) ! 5
     = Ev In_create
         (Modify_s ''cn=Stu_GeneralMac_Users,ou=Resources,o=DA''
            [(MOD_ADD, ''memberUid'', ''jo_hn'')]) True
   \<and> snd (create cfg0 w_group_down ''jo_hn'' ''False'' ''1'' ''1'' ''J'' ''JT'' ''T'' ''STU'' ''D01'' ''x''
          ''Art'' ''r'' ''pw'' ''d'' []) = Inr ''SUCCESS: User added to eDir''"
  by code_simp

text \<open>
  C1, amended. In each of the four actions, a directory call issued by the body of the
  action itself that raises \<open>LDAPError\<close> is the last call of the action (no further
  directory call, storage trigger or notification follows), and the action returns its
  mutation error, not a success string. A directory error inside the helpers
  \<open>addMember\<close> and \<open>delMemberUid\<close> does not end the action: \<open>addMember\<close> issues
  its one call and returns normally whether the call succeeds or not;
  \<open>delMemberUid\<close> never raises \<open>LDAPError\<close>, a failed call inside it is its last
  and it returns normally; and in the call log of every action a failed call of either
  helper is followed by a further call. Nothing is said here about exceptions other
  than \<open>LDAPError\<close>.
\<close>

theorem directory_error_ends_action:
  "(\<exists>evs. fst (create cfg w username loginDisabled uidNumber gidNumber givenName fullName sn
                  employeeType dNumber x500UniqueIdentifier ou businessCategory userPassword
                  description tr) = tr @ evs
         \<and> (\<forall>i<length evs. directory_failure In_create (evs ! i) \<longrightarrow>
               Suc i = length evs
             \<and> snd (create cfg w username loginDisabled uidNumber gidNumber givenName fullName sn
                      employeeType dNumber x500UniqueIdentifier ou businessCategory userPassword
                      description tr)
                 = Inr ''ERROR: Could not create eDir user or update groups'')
         \<and> (\<forall>i<length evs. helper_failure (evs ! i) \<longrightarrow> Suc i < length evs))
   \<and> (\<exists>evs. fst (update cfg w username newusername loginDisabled uidNumber gidNumber givenName
                  fullName sn employeeType dNumber x500UniqueIdentifier ou businessCategory
                  description tr) = tr @ evs
         \<and> (\<forall>i<length evs. directory_failure In_update (evs ! i) \<longrightarrow>
               Suc i = length evs
             \<and> (snd (update cfg w username newusername loginDisabled uidNumber gidNumber givenName
                       fullName sn employeeType dNumber x500UniqueIdentifier ou businessCategory
                       description tr) = Inr ''ERROR: Could not rename eDir user''
                \<or> snd (update cfg w username newusername loginDisabled uidNumber gidNumber givenName
                       fullName sn employeeType dNumber x500UniqueIdentifier ou businessCategory
                       description tr) = Inr ''ERROR: Could not update eDir user''))
         \<and> (\<forall>i<length evs. helper_failure (evs ! i) \<longrightarrow> Suc i < length evs))
   \<and> (\<exists>evs. fst (archive cfg w username tr) = tr @ evs
         \<and> (\<forall>i<length evs. directory_failure In_archive (evs ! i) \<longrightarrow>
               Suc i = length evs
             \<and> snd (archive cfg w username tr) = Inr ''ERROR: Could not move eDir user'')
         \<and> (\<forall>i<length evs. helper_failure (evs ! i) \<longrightarrow> Suc i < length evs))
   \<and> (\<exists>evs. fst (delete cfg w username tr) = tr @ evs
         \<and> (\<forall>i<length evs. directory_failure In_delete (evs ! i) \<longrightarrow>
               Suc i = length evs
             \<and> snd (delete cfg w username tr) = Inr ''ERROR: Could not delete eDir user'')
         \<and> (\<forall>i<length evs. helper_failure (evs ! i) \<longrightarrow> Suc i < length evs))
   \<and> addMember w gdn dn tr
       = (tr @ [Ev In_addMember
                  (Modify_s gdn [(MOD_ADD, ''member'', dn), (MOD_ADD, ''equivalentToMe'', dn)])
                  (call_ok w tr
                     (Modify_s gdn [(MOD_ADD, ''member'', dn), (MOD_ADD, ''equivalentToMe'', dn)]))],
          Inr ())
   \<and> snd (delMemberUid cfg w gn gdn username tr) \<noteq> Inl LDAPError
   \<and> (\<exists>evs. fst (delMemberUid cfg w gn gdn username tr) = tr @ evs
         \<and> (\<forall>i<length evs. directory_failure In_delMemberUid (evs ! i) \<longrightarrow>
               Suc i = length evs \<and> snd (delMemberUid cfg w gn gdn username tr) = Inr ()))"
  by (intro conjI ends_and_carries [OF create_stops create_carries]
        ends_and_carries [OF update_stops update_carries]
        ends_and_carries [OF archive_stops archive_carries]
        ends_and_carries [OF delete_stops delete_carries]
        addMember_eq delMemberUid_never_LDAPError stopsD [OF delMemberUid_stops])

text \<open>
  The directory refuses the new entry: the third call fails and is the last one. The
  directory refuses the member of the group: the fifth call fails and another follows.
\<close>

theorem directory_error_ends_action_witness:
  "directory_failure In_create
     (fst (create cfg0 w_add_fails ''jo_hn'' ''False'' ''1'' ''1'' ''J'' ''JT'' ''T'' ''STU'' ''D01'' ''x''
             ''Art'' ''r'' ''pw'' ''d'' []) ! 2)
   \<and> length (fst (create cfg0 w_add_fails ''jo_hn'' ''False'' ''1'' ''1'' ''J'' ''JT'' ''T'' ''STU''
          ''D01'' ''x'' ''Art'' ''r'' ''pw'' ''d'' [])) = 3
   \<and> snd (create cfg0 w_add_fails ''jo_hn'' ''False'' ''1'' ''1'' ''J'' ''JT'' ''T'' ''STU'' ''D01'' ''x''
          ''Art'' ''r'' ''pw'' ''d'' []) = Inr ''ERROR: Could not create eDir user or update groups''
   \<and> helper_failure
       (fst (create cfg0 w_group_down ''jo_hn'' ''False'' ''1'' ''1'' ''J'' ''JT'' ''T'' ''STU'' ''D01''
               ''x'' ''Art'' ''r'' ''pw'' ''d'' []) ! 4)
   \<and> 5 < length (fst (create cfg0 w_group_down ''jo_hn'' ''False'' ''1'' ''1'' ''J'' ''JT'' ''T'' ''STU''
                     ''D01'' ''x'' ''Art'' ''r'' ''pw'' ''d'' []))"
proof -
  let ?run = "create cfg0 w_add_fails ''jo_hn'' ''False'' ''1'' ''1'' ''J'' ''JT'' ''T'' ''STU'' ''D01''
                ''x'' ''Art'' ''r'' ''pw'' ''d'' []"
  let ?run2 = "create cfg0 w_group_down ''jo_hn'' ''False'' ''1'' ''1'' ''J'' ''JT'' ''T'' ''STU'' ''D01''
                ''x'' ''Art'' ''r'' ''pw'' ''d'' []"
  have len: "length (fst ?run) = 3"
    by code_simp
  have fail: "directory_failure In_create (fst ?run ! 2)"
    by code_simp
  have hf: "helper_failure (fst ?run2 ! 4)" "4 < length (fst ?run2)"
    by code_simp+
  from directory_error_ends_action [where cfg = cfg0 and w = w_add_fails and tr = "[]"
      and username = "''jo_hn''" and loginDisabled = "''False''" and uidNumber = "''1''"
      and gidNumber = "''1''" and givenName = "''J''" and fullName = "''JT''" and sn = "''T''"
      and employeeType = "''STU''" and dNumber = "''D01''" and x500UniqueIdentifier = "''x''"
      and ou = "''Art''" and businessCategory = "''r''" and userPassword = "''pw''"
      and description = "''d''", THEN conjunct1]
  obtain evs where evs: "fst ?run = [] @ evs"
    and stop: "\<forall>i<length evs. directory_failure In_create (evs ! i) \<longrightarrow>
                 Suc i = length evs
               \<and> snd ?run = Inr ''ERROR: Could not create eDir user or update groups''"
    by blast
  from evs have e: "evs = fst ?run" by simp
  from stop [unfolded e] len fail
  have res: "snd ?run = Inr ''ERROR: Could not create eDir user or update groups''"
    by (metis lessI numeral_2_eq_2 numeral_3_eq_3)
  from directory_error_ends_action [where cfg = cfg0 and w = w_group_down and tr = "[]"
      and username = "''jo_hn''" and loginDisabled = "''False''" and uidNumber = "''1''"
      and gidNumber = "''1''" and givenName = "''J''" and fullName = "''JT''" and sn = "''T''"
      and employeeType = "''STU''" and dNumber = "''D01''" and x500UniqueIdentifier = "''x''"
      and ou = "''Art''" and businessCategory = "''r''" and userPassword = "''pw''"
      and description = "''d''", THEN conjunct1]
  obtain evs2 where evs2: "fst ?run2 = [] @ evs2"
    and go: "\<forall>i<length evs2. helper_failure (evs2 ! i) \<longrightarrow> Suc i < length evs2"
    by blast
  from evs2 have e2: "evs2 = fst ?run2" by simp
  from go [unfolded e2] hf have "Suc 4 < length (fst ?run2)" by blast
  then have "5 < length (fst ?run2)" by simp
  with len fail res hf show ?thesis by simp
qed

end
